theory Spec2Isabelle
  imports Main "HOL-Library.Word"
begin

section \<open>The ONNX Runtime backend of the inference server\<close>

text \<open>
  A shallow embedding of \<^verbatim>\<open>src/backends/onnx/onnx_backend.cc\<close> (with the declarations of
  \<^verbatim>\<open>onnx_backend.h\<close> and \<^verbatim>\<open>onnx_utils.h\<close>): the creation of one execution context per model
  instance, the dispatcher \<^verbatim>\<open>OnnxBackend::Run\<close>, the per-context \<^verbatim>\<open>Context::Run\<close> with its
  fan-in and fan-out routines, and the release of the run-scoped tensor handles.

  Conventions. A C++ \<^verbatim>\<open>int\<close> whose value is converted or compared across signedness is a
  \<open>32 word\<close>; \<^verbatim>\<open>size_t\<close> is a \<open>64 word\<close> (LP64); \<^verbatim>\<open>uint32_t\<close> is a \<open>32 word\<close>. An \<^verbatim>\<open>int\<close> that
  is only compared for equality and printed (a device index, a compute capability number)
  is an \<open>int\<close>. A nullable pointer is an \<open>option\<close>. A member \<^verbatim>\<open>x_\<close> of the source is
  written \<open>x_'\<close>. The calls that the properties below speak of (the CUDA device query,
  the creation of a session, the queries of the exposed names, the timers of the statistics
  object, the runtime invocation, the release of a tensor value and the scheduler's completion
  callback) and every entry to the fan-in and fan-out routines are recorded, in order, in a
  trace of events that the functions thread through.
  Logging macros have no effect on the state and are left out.
\<close>

subsection \<open>Status\<close>

text \<open>The status codes of \<^verbatim>\<open>request_status.proto\<close> (the file is not under src/).\<close>

datatype RequestStatusCode =
  INVALID | SUCCESS | UNKNOWN | INTERNAL | NOT_FOUND | INVALID_ARG | UNAVAILABLE
  | UNSUPPORTED | ALREADY_EXISTS

datatype Status = Status (Code: RequestStatusCode) (Message: string)

definition Success :: Status where
  "Success = Status SUCCESS []"

definition IsOk :: "Status \<Rightarrow> bool" where
  "IsOk s = (Code s = SUCCESS)"

subsection \<open>std::to_string on integers\<close>

function string_of_nat :: "nat \<Rightarrow> string" where
  "string_of_nat n =
     (if n < 10 then [''0123456789'' ! n]
      else string_of_nat (n div 10) @ [''0123456789'' ! (n mod 10)])"
  by pat_completeness auto
termination
  by (relation "measure (\<lambda>n. n)") auto

declare string_of_nat.simps [simp del]

definition to_string :: "int \<Rightarrow> string" where
  "to_string i = (if i < 0 then CHR ''-'' # string_of_nat (nat (- i)) else string_of_nat (nat i))"

subsection \<open>Model configuration\<close>

text \<open>
  The messages of \<^verbatim>\<open>model_config.proto\<close> as far as this file reads them. \<open>max_batch_size\<close> is
  an \<^verbatim>\<open>int32\<close> field. The instance groups are read by \<^verbatim>\<open>CreateExecutionContexts\<close> only, which
  calls \<^verbatim>\<open>CreateExecutionContext\<close> once per instance with the instance's name and device.
\<close>

datatype DataType =
  TYPE_INVALID | TYPE_BOOL | TYPE_UINT8 | TYPE_UINT16 | TYPE_UINT32 | TYPE_UINT64
  | TYPE_INT8 | TYPE_INT16 | TYPE_INT32 | TYPE_INT64 | TYPE_FP16 | TYPE_FP32 | TYPE_FP64
  | TYPE_STRING

record ModelInput =
  in_name :: string
  in_data_type :: DataType
  in_dims :: "int list"

record ModelOutput =
  out_name :: string
  out_data_type :: DataType
  out_dims :: "int list"

record ModelConfig =
  cfg_name :: string
  max_batch_size :: "32 word"
  default_model_filename :: string
  cc_model_filenames :: "string \<rightharpoonup> string"
  cfg_input :: "ModelInput list"
  cfg_output :: "ModelOutput list"

subsection \<open>The ONNX Runtime C API and the other collaborators\<close>

text \<open>
  \<^verbatim>\<open>ONNXTensorElementDataType\<close> of \<^verbatim>\<open>onnxruntime_c_api.h\<close>; the code compares against
  \<^verbatim>\<open>ONNX_TENSOR_ELEMENT_DATA_TYPE_UNDEFINED\<close> only.
\<close>

datatype ONNXTensorElementDataType =
  ONNX_TENSOR_ELEMENT_DATA_TYPE_UNDEFINED | ONNX_TENSOR_ELEMENT_DATA_TYPE_FLOAT
  | ONNX_TENSOR_ELEMENT_DATA_TYPE_UINT8 | ONNX_TENSOR_ELEMENT_DATA_TYPE_INT8
  | ONNX_TENSOR_ELEMENT_DATA_TYPE_UINT16 | ONNX_TENSOR_ELEMENT_DATA_TYPE_INT16
  | ONNX_TENSOR_ELEMENT_DATA_TYPE_INT32 | ONNX_TENSOR_ELEMENT_DATA_TYPE_INT64
  | ONNX_TENSOR_ELEMENT_DATA_TYPE_STRING | ONNX_TENSOR_ELEMENT_DATA_TYPE_BOOL
  | ONNX_TENSOR_ELEMENT_DATA_TYPE_FLOAT16 | ONNX_TENSOR_ELEMENT_DATA_TYPE_DOUBLE
  | ONNX_TENSOR_ELEMENT_DATA_TYPE_UINT32 | ONNX_TENSOR_ELEMENT_DATA_TYPE_UINT64

text \<open>A non-null \<^verbatim>\<open>OrtStatus*\<close>: the error code and the message the macro reads from it.\<close>

record OrtStatus =
  OrtGetErrorCode :: nat
  OrtGetErrorMessage :: string

text \<open>
  Handles (\<^verbatim>\<open>OrtSession*\<close>, \<^verbatim>\<open>OrtAllocatorInfo*\<close>, \<^verbatim>\<open>OrtValue*\<close>) are numbers; \<open>None\<close> is
  \<^verbatim>\<open>nullptr\<close>.
\<close>

type_synonym handle = nat

text \<open>
  What the code calls and this repository's sources under src/ do not define, taken as
  parameters: the CUDA device query (an error string, or the device's major and minor
  compute capability), the ONNX Runtime calls, the helpers of \<^verbatim>\<open>onnx_utils.cc\<close>
  (\<open>ConvertDataType\<close>, \<open>InputNames\<close>, \<open>OutputNames\<close>), protobuf's \<open>DataType_Name\<close> and
  \<^verbatim>\<open>InferenceBackend::GetInput\<close>. \<open>OrtRun\<close> receives the session, the input names, the input
  tensors, the output names and the current contents of the output slots, and returns
  its status and what it stores in the output slots.
\<close>

record externals =
  cudaGetDeviceProperties :: "int \<Rightarrow> string + int \<times> int"
  OrtSessionOptionsAppendExecutionProvider_CUDA :: "int \<Rightarrow> OrtStatus option"
  OrtCreateSession :: "string \<Rightarrow> OrtStatus option \<times> handle option"
  OrtCreateCpuAllocatorInfo :: "OrtStatus option \<times> handle option"
  InputNames :: "handle option \<Rightarrow> Status \<times> string list"
  OutputNames :: "handle option \<Rightarrow> Status \<times> string list"
  ConvertDataType :: "DataType \<Rightarrow> ONNXTensorElementDataType"
  DataType_Name :: "DataType \<Rightarrow> string"
  GetInput :: "ModelConfig \<Rightarrow> string \<Rightarrow> Status \<times> ModelInput"
  OrtRun :: "handle option \<Rightarrow> string list \<Rightarrow> handle option list \<Rightarrow> string list
    \<Rightarrow> handle option list \<Rightarrow> OrtStatus option \<times> handle option list"

datatype event =
  Ev_cudaGetDeviceProperties int
  | Ev_OrtCreateSession string
  | Ev_InputNames
  | Ev_OutputNames
  | Ev_OrtCreateCpuAllocatorInfo
  | Ev_StartComputeTimer
  | Ev_SetGPUDevice int
  | Ev_SetInputTensor string
  | Ev_OrtRun
  | Ev_ReadOutputTensors
  | Ev_OrtReleaseValue handle
  | Ev_OnCompleteQueuedPayloads Status

text \<open>The macro \<^verbatim>\<open>RETURN_IF_ORT_ERROR\<close> of \<^verbatim>\<open>onnx_utils.h\<close>: the status it returns.\<close>

definition ort_error_status :: "OrtStatus \<Rightarrow> Status" where
  "ort_error_status s =
     Status INTERNAL
       (''onnx runtime error '' @ to_string (int (OrtGetErrorCode s)) @ '': ''
          @ OrtGetErrorMessage s)"

subsection \<open>Contexts, payloads and the backend\<close>

record Context =
  name_' :: string
  gpu_device_' :: int
  max_batch_size_' :: "32 word"
  session_' :: "handle option"
  allocator_info_' :: "handle option"
  input_tensors_' :: "handle option list"
  output_tensors_' :: "handle option list"

definition NO_GPU_DEVICE :: int where
  "NO_GPU_DEVICE = - 1"

definition NO_BATCHING :: "32 word" where
  "NO_BATCHING = 0"

text \<open>The constructor \<^verbatim>\<open>Context::Context\<close>.\<close>

definition new_Context :: "string \<Rightarrow> int \<Rightarrow> 32 word \<Rightarrow> Context" where
  "new_Context name gpu_device mbs =
     \<lparr>name_' = name, gpu_device_' = gpu_device, max_batch_size_' = mbs, session_' = None,
      allocator_info_' = None, input_tensors_' = [], output_tensors_' = []\<rparr>"

text \<open>
  What \<^verbatim>\<open>Context::Run\<close> reads of a request provider: the batch size of the request header
  (a \<^verbatim>\<open>uint32\<close>), the header's inputs, the override table (a nullable pointer to a map, here
  the list its iteration yields) and the bytes supplied for each input.
\<close>

record RequestInput =
  ri_name :: string
  ri_dims :: "int list"

record InputOverride =
  datatype_' :: DataType
  dims_' :: "int list"
  content_' :: "8 word list"

record InferRequestProvider =
  batch_size :: "32 word"
  rh_input :: "RequestInput list"
  GetInputOverride :: "(string \<times> InputOverride) list option"
  input_content :: "string \<rightharpoonup> 8 word list"

text \<open>
  A scheduler payload. \<open>queue_timer_'\<close> and \<open>stats_'\<close> say whether the pointers are non-null;
  \<open>response_provider_'\<close> holds the bytes written so far to each named output.
\<close>

record Payload =
  status_' :: Status
  request_provider_' :: InferRequestProvider
  response_provider_' :: "string \<rightharpoonup> 8 word list"
  queue_timer_' :: bool
  stats_' :: bool

record OnnxBackend =
  Config :: ModelConfig
  contexts_' :: "Context list"

definition Name :: "OnnxBackend \<Rightarrow> string" where
  "Name b = cfg_name (Config b)"

subsection \<open>Creating an execution context\<close>

text \<open>
  The macro \<^verbatim>\<open>RETURN_IF_ERROR\<close> returns the status of its argument when that status is not
  OK; in the definitions below it is the test \<open>\<not> IsOk st\<close>.
\<close>

text \<open>
  Modelled from the spec: \<^verbatim>\<open>CheckAllowedModelInput\<close> and \<^verbatim>\<open>CheckAllowedModelOutput\<close> of
  \<^verbatim>\<open>src/core/model_config_utils.cc\<close>, which is not under src/. The spec (4.2): validation
  "fails with SchemaMismatchError naming the offending input/output if a declared name is
  absent from the runtime's exposed names".
\<close>

definition CheckAllowedModelInput :: "ModelInput \<Rightarrow> string list \<Rightarrow> Status" where
  "CheckAllowedModelInput io allowed =
     (if in_name io \<in> set allowed then Success
      else Status INVALID_ARG (''unexpected inference input '' @ [CHR 0x27] @ in_name io @ [CHR 0x27]))"

definition CheckAllowedModelOutput :: "ModelOutput \<Rightarrow> string list \<Rightarrow> Status" where
  "CheckAllowedModelOutput io allowed =
     (if out_name io \<in> set allowed then Success
      else Status INVALID_ARG (''unexpected inference output '' @ [CHR 0x27] @ out_name io @ [CHR 0x27]))"

text \<open>The loop of \<^verbatim>\<open>Context::ValidateInputs\<close> over the declared inputs.\<close>

fun ValidateInputs_each :: "externals \<Rightarrow> string \<Rightarrow> string list \<Rightarrow> ModelInput list \<Rightarrow> Status" where
  "ValidateInputs_each ext nm input_node_names [] = Success"
| "ValidateInputs_each ext nm input_node_names (io # ios) =
     (if \<not> IsOk (CheckAllowedModelInput io input_node_names)
      then CheckAllowedModelInput io input_node_names
      else if ConvertDataType ext (in_data_type io) = ONNX_TENSOR_ELEMENT_DATA_TYPE_UNDEFINED
      then Status INTERNAL
             (''unsupported datatype '' @ DataType_Name ext (in_data_type io) @ '' for input ''
                @ [CHR 0x27] @ in_name io @ [CHR 0x27] @ '' for model '' @ [CHR 0x27] @ nm
                @ [CHR 0x27])
      else ValidateInputs_each ext nm input_node_names ios)"

definition ValidateInputs ::
  "externals \<Rightarrow> Context \<Rightarrow> ModelInput list \<Rightarrow> event list \<Rightarrow> Status \<times> event list" where
  "ValidateInputs ext ctx ios tr =
     (case InputNames ext (session_' ctx) of
        (st, input_node_names) \<Rightarrow>
          if \<not> IsOk st then (st, tr @ [Ev_InputNames])
          else (ValidateInputs_each ext (name_' ctx) input_node_names ios, tr @ [Ev_InputNames]))"

fun ValidateOutputs_each :: "externals \<Rightarrow> string \<Rightarrow> string list \<Rightarrow> ModelOutput list \<Rightarrow> Status" where
  "ValidateOutputs_each ext nm output_node_names [] = Success"
| "ValidateOutputs_each ext nm output_node_names (io # ios) =
     (if \<not> IsOk (CheckAllowedModelOutput io output_node_names)
      then CheckAllowedModelOutput io output_node_names
      else if ConvertDataType ext (out_data_type io) = ONNX_TENSOR_ELEMENT_DATA_TYPE_UNDEFINED
      then Status INTERNAL
             (''unsupported datatype '' @ DataType_Name ext (out_data_type io) @ '' for output ''
                @ [CHR 0x27] @ out_name io @ [CHR 0x27] @ '' for model '' @ [CHR 0x27] @ nm
                @ [CHR 0x27])
      else ValidateOutputs_each ext nm output_node_names ios)"

definition ValidateOutputs ::
  "externals \<Rightarrow> Context \<Rightarrow> ModelOutput list \<Rightarrow> event list \<Rightarrow> Status \<times> event list" where
  "ValidateOutputs ext ctx ios tr =
     (case OutputNames ext (session_' ctx) of
        (st, output_node_names) \<Rightarrow>
          if \<not> IsOk st then (st, tr @ [Ev_OutputNames])
          else (ValidateOutputs_each ext (name_' ctx) output_node_names ios, tr @ [Ev_OutputNames]))"

text \<open>
  The first block of \<^verbatim>\<open>CreateExecutionContext\<close>: the model file for the device. \<open>Inl\<close> is the
  early return when the device query fails, \<open>Inr\<close> the pair of \<^verbatim>\<open>cc\<close> and
  \<^verbatim>\<open>cc_model_filename\<close>.
\<close>

definition choose_cc_model_filename ::
  "externals \<Rightarrow> OnnxBackend \<Rightarrow> int \<Rightarrow> Status + string \<times> string" where
  "choose_cc_model_filename ext b gpu_device =
     (if gpu_device = NO_GPU_DEVICE then Inr ([], default_model_filename (Config b))
      else
        case cudaGetDeviceProperties ext gpu_device of
          Inl cuerr \<Rightarrow>
            Inl (Status INTERNAL
                  (''unable to get CUDA device properties for '' @ Name b @ '': '' @ cuerr))
        | Inr (major, minor) \<Rightarrow>
            let cc = to_string major @ ''.'' @ to_string minor
            in Inr (cc,
                 case cc_model_filenames (Config b) cc of
                   None \<Rightarrow> default_model_filename (Config b)
                 | Some f \<Rightarrow> f))"

text \<open>The maximum batch size given to the new context.\<close>

definition mbs :: "ModelConfig \<Rightarrow> 32 word" where
  "mbs cfg = (if max_batch_size cfg \<le>s 0 then NO_BATCHING else max_batch_size cfg)"

text \<open>
  The session: the CUDA execution provider is appended for a GPU context, and the session
  is created when that did not fail. The result is the \<^verbatim>\<open>onnx_status\<close>, the session pointer
  that \<^verbatim>\<open>OrtCreateSession\<close> stored in the context, and the trace.
\<close>

definition create_session ::
  "externals \<Rightarrow> int \<Rightarrow> string \<Rightarrow> event list \<Rightarrow> OrtStatus option \<times> handle option \<times> event list" where
  "create_session ext gpu_device path tr =
     (case (if gpu_device \<noteq> NO_GPU_DEVICE
            then OrtSessionOptionsAppendExecutionProvider_CUDA ext gpu_device else None) of
        Some e \<Rightarrow> (Some e, None, tr)
      | None \<Rightarrow>
          (case OrtCreateSession ext path of
             (onnx_status, session) \<Rightarrow> (onnx_status, session, tr @ [Ev_OrtCreateSession path])))"

text \<open>
  What follows \<^verbatim>\<open>contexts_.emplace_back\<close>: the session, the two validations and the
  allocator info. The context is the last element of \<open>contexts_'\<close> from here on, whatever
  is returned.

  The status of the session is dropped. The macro \<^verbatim>\<open>RETURN_IF_ORT_ERROR(S)\<close> of
  \<^verbatim>\<open>onnx_utils.h\<close> opens a block with \<^verbatim>\<open>OrtStatus* onnx_status = nullptr; onnx_status = (S);\<close>
  and \<^verbatim>\<open>CreateExecutionContext\<close> calls it with its own local \<^verbatim>\<open>onnx_status\<close> as \<^verbatim>\<open>S\<close>: inside
  the block the name denotes the macro's variable, which is assigned to itself and stays null,
  so the macro never returns there and the function goes on to the validations. Where the
  argument of the macro is a call (\<^verbatim>\<open>OrtCreateCpuAllocatorInfo\<close>, \<^verbatim>\<open>OrtRun\<close>) the macro returns
  \<open>ort_error_status\<close> of a status that is not null.
\<close>

definition validate_context ::
  "externals \<Rightarrow> ModelConfig \<Rightarrow> Context \<Rightarrow> event list \<Rightarrow> Status \<times> event list" where
  "validate_context ext cfg context tr =
     (case ValidateInputs ext context (cfg_input cfg) tr of
        (st_in, tr1) \<Rightarrow>
          if \<not> IsOk st_in then (st_in, tr1)
          else ValidateOutputs ext context (cfg_output cfg) tr1)"

definition create_allocator_info ::
  "externals \<Rightarrow> Context \<Rightarrow> event list \<Rightarrow> Status \<times> Context \<times> event list" where
  "create_allocator_info ext context tr =
     (case OrtCreateCpuAllocatorInfo ext of
        (alloc_status, info) \<Rightarrow>
          ((case alloc_status of Some e \<Rightarrow> ort_error_status e | None \<Rightarrow> Success),
           context\<lparr>allocator_info_' := info\<rparr>,
           tr @ [Ev_OrtCreateCpuAllocatorInfo]))"

definition init_context ::
  "externals \<Rightarrow> ModelConfig \<Rightarrow> int \<Rightarrow> string \<Rightarrow> Context \<Rightarrow> event list
    \<Rightarrow> Status \<times> Context \<times> event list" where
  "init_context ext cfg gpu_device path context tr =
     (case create_session ext gpu_device path tr of
        (onnx_status, session, tr1) \<Rightarrow>
          (case validate_context ext cfg (context\<lparr>session_' := session\<rparr>) tr1 of
             (st, tr2) \<Rightarrow>
               if \<not> IsOk st then (st, context\<lparr>session_' := session\<rparr>, tr2)
               else create_allocator_info ext (context\<lparr>session_' := session\<rparr>) tr2))"

definition CreateExecutionContext ::
  "externals \<Rightarrow> string \<Rightarrow> int \<Rightarrow> (string \<rightharpoonup> string) \<Rightarrow> OnnxBackend \<Rightarrow> event list
    \<Rightarrow> Status \<times> OnnxBackend \<times> event list" where
  "CreateExecutionContext ext instance_name gpu_device paths b tr =
     (let tr0 = (if gpu_device = NO_GPU_DEVICE then tr
                 else tr @ [Ev_cudaGetDeviceProperties gpu_device])
      in case choose_cc_model_filename ext b gpu_device of
           Inl st \<Rightarrow> (st, b, tr0)
         | Inr (cc, cc_model_filename) \<Rightarrow>
             (case paths cc_model_filename of
                None \<Rightarrow>
                  (Status INTERNAL
                     (''unable to find model '' @ [CHR 0x27] @ cc_model_filename @ [CHR 0x27]
                        @ '' for '' @ Name b),
                   b, tr0)
              | Some path \<Rightarrow>
                  (case init_context ext (Config b) gpu_device path
                          (new_Context instance_name gpu_device (mbs (Config b))) tr0 of
                     (st, context, tr1) \<Rightarrow>
                       (st, b\<lparr>contexts_' := contexts_' b @ [context]\<rparr>, tr1))))"

subsection \<open>Running a group of payloads on a context\<close>

text \<open>
  The state that \<^verbatim>\<open>Context::Run\<close> and the routines it calls read and write: the context
  (with its two tensor containers), the trace, the payloads (passed by pointer) and the
  locals \<^verbatim>\<open>input_buffers\<close> and \<^verbatim>\<open>input_names\<close> of \<^verbatim>\<open>Context::Run\<close>.
\<close>

record run_state =
  rs_context :: Context
  rs_trace :: "event list"
  rs_payloads :: "Payload list"
  rs_input_buffers :: "8 word list list"
  rs_input_names :: "string list"

text \<open>
  \<^verbatim>\<open>Context::SetInputTensor\<close> returns at its first statement: the statements that follow it
  in the source (the bookkeeping of names, tensors and buffers, and the creation of the
  tensor) are never executed.
\<close>

definition SetInputTensor ::
  "string \<Rightarrow> DataType \<Rightarrow> int list \<Rightarrow> 64 word \<Rightarrow> run_state \<Rightarrow> Status \<times> run_state" where
  "SetInputTensor name datatype dims total_batch_size s =
     (Status UNSUPPORTED ''SetInputTensor() implemented'',
      s\<lparr>rs_trace := rs_trace s @ [Ev_SetInputTensor name]\<rparr>)"

text \<open>\<^verbatim>\<open>Context::ReadOutputTensors\<close> returns at its first statement as well.\<close>

definition ReadOutputTensors ::
  "OnnxBackend \<Rightarrow> 64 word \<Rightarrow> string list \<Rightarrow> run_state \<Rightarrow> Status \<times> run_state" where
  "ReadOutputTensors base total_batch_size output_names s =
     (Status UNSUPPORTED ''ReadOutputTensors() implemented'',
      s\<lparr>rs_trace := rs_trace s @ [Ev_ReadOutputTensors]\<rparr>)"

text \<open>
  The first loop of \<^verbatim>\<open>Context::Run\<close>, with its two accumulators \<^verbatim>\<open>total_batch_size\<close> (a
  \<^verbatim>\<open>size_t\<close>) and \<^verbatim>\<open>input_request_provider\<close> (a shared pointer, null at first). \<open>Inl\<close> is the
  return from inside the loop.
\<close>

fun Run_total_batch_size ::
  "string \<Rightarrow> Payload list \<Rightarrow> 64 word \<Rightarrow> InferRequestProvider option
    \<Rightarrow> Status + 64 word \<times> InferRequestProvider option" where
  "Run_total_batch_size nm [] total_batch_size input_request_provider =
     Inr (total_batch_size, input_request_provider)"
| "Run_total_batch_size nm (payload # rest) total_batch_size input_request_provider =
     (if \<not> IsOk (status_' payload)
      then Inl (Status INTERNAL
                 (''unexpected payload with non-OK status given to runner for ''
                    @ [CHR 0x27] @ nm @ [CHR 0x27]))
      else Run_total_batch_size nm rest
             (total_batch_size + ucast (batch_size (request_provider_' payload)))
             (Some (request_provider_' payload)))"

text \<open>The loop over the inputs of the request header.\<close>

fun Run_inputs ::
  "externals \<Rightarrow> OnnxBackend \<Rightarrow> 64 word \<Rightarrow> RequestInput list \<Rightarrow> run_state
    \<Rightarrow> Status \<times> run_state" where
  "Run_inputs ext base total_batch_size [] s = (Success, s)"
| "Run_inputs ext base total_batch_size (inp # rest) s =
     (case GetInput ext (Config base) (ri_name inp) of
        (st, input_config) \<Rightarrow>
          if \<not> IsOk st then (st, s)
          else
            (case SetInputTensor (ri_name inp) (in_data_type input_config) (ri_dims inp)
                    total_batch_size s of
               (st1, s1) \<Rightarrow>
                 if \<not> IsOk st1 then (st1, s1)
                 else Run_inputs ext base total_batch_size rest s1))"

text \<open>The loop over the override map, when the pointer to it is not null.\<close>

fun Run_overrides ::
  "64 word \<Rightarrow> (string \<times> InputOverride) list \<Rightarrow> run_state \<Rightarrow> Status \<times> run_state" where
  "Run_overrides total_batch_size [] s = (Success, s)"
| "Run_overrides total_batch_size (pr # rest) s =
     (case SetInputTensor (fst pr) (datatype_' (snd pr)) (dims_' (snd pr)) total_batch_size s of
        (st1, s1) \<Rightarrow>
          if \<not> IsOk st1 then (st1, s1)
          else Run_overrides total_batch_size rest s1)"

text \<open>
  \<^verbatim>\<open>OrtRun\<close> is handed \<^verbatim>\<open>output_tensors_.data()\<close> and the number of output names: it can store
  into the first \<open>n\<close> slots of the container and into no other.
\<close>

definition store_outputs ::
  "nat \<Rightarrow> handle option list \<Rightarrow> handle option list \<Rightarrow> handle option list" where
  "store_outputs n res old =
     map (\<lambda>i. if i < n \<and> i < length res then res ! i else old ! i) [0..<length old]"

text \<open>
  The output placeholders, the one call of \<^verbatim>\<open>OrtRun\<close> and the reading of the outputs.
\<close>

definition Run_invoke :: "externals \<Rightarrow> OnnxBackend \<Rightarrow> 64 word \<Rightarrow> run_state \<Rightarrow> Status \<times> run_state" where
  "Run_invoke ext base total_batch_size s =
     (let output_names = map out_name (cfg_output (Config base));
          slots = output_tensors_' (rs_context s) @ replicate (length (cfg_output (Config base))) None
      in case OrtRun ext (session_' (rs_context s)) (rs_input_names s) (input_tensors_' (rs_context s))
                output_names slots of
           (onnx_status, res) \<Rightarrow>
             (case onnx_status of
                Some e \<Rightarrow>
                  (ort_error_status e,
                   s\<lparr>rs_context := (rs_context s)
                        \<lparr>output_tensors_' := store_outputs (length output_names) res slots\<rparr>,
                     rs_trace := rs_trace s @ [Ev_OrtRun]\<rparr>)
              | None \<Rightarrow>
                  ReadOutputTensors base total_batch_size output_names
                    (s\<lparr>rs_context := (rs_context s)
                         \<lparr>output_tensors_' := store_outputs (length output_names) res slots\<rparr>,
                       rs_trace := rs_trace s @ [Ev_OrtRun]\<rparr>)))"

text \<open>The part of \<^verbatim>\<open>Context::Run\<close> after its banner comment: fan-in, invocation, fan-out.\<close>

definition Run_onnx ::
  "externals \<Rightarrow> OnnxBackend \<Rightarrow> 64 word \<Rightarrow> InferRequestProvider \<Rightarrow> run_state
    \<Rightarrow> Status \<times> run_state" where
  "Run_onnx ext base total_batch_size input_request_provider s =
     (case Run_inputs ext base total_batch_size (rh_input input_request_provider) s of
        (st1, s1) \<Rightarrow>
          if \<not> IsOk st1 then (st1, s1)
          else
            (case Run_overrides total_batch_size
                    (case GetInputOverride input_request_provider of None \<Rightarrow> [] | Some m \<Rightarrow> m)
                    s1 of
               (st2, s2) \<Rightarrow>
                 if \<not> IsOk st2 then (st2, s2)
                 else Run_invoke ext base total_batch_size s2))"

text \<open>
  The state in which \<^verbatim>\<open>Context::Run\<close> starts: its two locals are empty. It returns in
  this state when it returns before fan-in.
\<close>

definition initial_state :: "Context \<Rightarrow> Payload list \<Rightarrow> event list \<Rightarrow> run_state" where
  "initial_state ctx ps tr =
     \<lparr>rs_context = ctx, rs_trace = tr, rs_payloads = ps, rs_input_buffers = [],
      rs_input_names = []\<rparr>"

text \<open>
  \<^verbatim>\<open>Context::Run\<close>. The provider pointer is null after the first loop only when there is no
  payload, and then the total is zero and the function has returned (lemma
  \<open>Run_total_batch_size_null_provider\<close> below): the branch for \<open>None\<close>, where the source
  would dereference a null pointer, is not reachable.
\<close>

definition Context_Run ::
  "externals \<Rightarrow> OnnxBackend \<Rightarrow> Context \<Rightarrow> Payload list \<Rightarrow> event list \<Rightarrow> Status \<times> run_state" where
  "Context_Run ext base ctx ps tr =
     (let s0 = initial_state ctx ps tr
      in case Run_total_batch_size (name_' ctx) ps 0 None of
           Inl st \<Rightarrow> (st, s0)
         | Inr (total_batch_size, input_request_provider) \<Rightarrow>
             if total_batch_size = 0 then (Success, s0)
             else if total_batch_size \<noteq> 1 \<and> total_batch_size > scast (max_batch_size_' ctx)
             then (Status INTERNAL
                     (''dynamic batch size '' @ to_string (uint total_batch_size) @ '' for ''
                        @ [CHR 0x27] @ name_' ctx @ [CHR 0x27] @ '', max allowed is ''
                        @ to_string (sint (max_batch_size_' ctx))),
                   s0)
             else
               (case input_request_provider of
                  None \<Rightarrow> (Status INTERNAL ''null input_request_provider'', s0)
                | Some provider \<Rightarrow> Run_onnx ext base total_batch_size provider s0))"

subsection \<open>Releasing the run resources and the dispatcher\<close>

text \<open>The handles that a loop of \<^verbatim>\<open>ReleaseOrtRunResources\<close> passes to \<^verbatim>\<open>OrtReleaseValue\<close>.\<close>

fun non_null :: "handle option list \<Rightarrow> handle list" where
  "non_null [] = []"
| "non_null (None # ts) = non_null ts"
| "non_null (Some h # ts) = h # non_null ts"

definition ReleaseOrtRunResources :: "Context \<Rightarrow> event list \<Rightarrow> Context \<times> event list" where
  "ReleaseOrtRunResources ctx tr =
     (ctx\<lparr>input_tensors_' := [], output_tensors_' := []\<rparr>,
      tr @ map Ev_OrtReleaseValue (non_null (input_tensors_' ctx))
         @ map Ev_OrtReleaseValue (non_null (output_tensors_' ctx)))"

text \<open>The loop of \<^verbatim>\<open>OnnxBackend::Run\<close> over the payloads that stops and starts the timers.\<close>

fun start_timers :: "int \<Rightarrow> Payload list \<Rightarrow> event list \<Rightarrow> Payload list \<times> event list" where
  "start_timers gpu [] tr = ([], tr)"
| "start_timers gpu (payload # rest) tr =
     (case start_timers gpu rest
             (if stats_' payload then tr @ [Ev_StartComputeTimer, Ev_SetGPUDevice gpu] else tr) of
        (rest1, tr1) \<Rightarrow>
          ((if queue_timer_' payload then payload\<lparr>queue_timer_' := False\<rparr> else payload) # rest1,
           tr1))"

text \<open>
  The dispatcher \<^verbatim>\<open>OnnxBackend::Run\<close>. The callback \<^verbatim>\<open>OnCompleteQueuedPayloads\<close> is the event
  \<open>Ev_OnCompleteQueuedPayloads\<close> of the trace. \<open>runner_idx\<close> is a \<^verbatim>\<open>uint32_t\<close>.
\<close>

definition OnnxBackend_Run ::
  "externals \<Rightarrow> OnnxBackend \<Rightarrow> 32 word \<Rightarrow> Payload list \<Rightarrow> event list
    \<Rightarrow> OnnxBackend \<times> Payload list \<times> event list" where
  "OnnxBackend_Run ext b runner_idx ps tr =
     (if unat runner_idx \<ge> length (contexts_' b)
      then (b, ps,
            tr @ [Ev_OnCompleteQueuedPayloads
                    (Status INTERNAL
                       (''unexpected runner index'' @ to_string (uint runner_idx)
                          @ '', max allowed '' @ to_string (int (length (contexts_' b)))))])
      else
        case start_timers (gpu_device_' (contexts_' b ! unat runner_idx)) ps tr of
          (ps1, tr1) \<Rightarrow>
            (case Context_Run ext b (contexts_' b ! unat runner_idx) ps1 tr1 of
               (status, s) \<Rightarrow>
                 (case ReleaseOrtRunResources (rs_context s) (rs_trace s) of
                    (ctx1, tr2) \<Rightarrow>
                      (b\<lparr>contexts_' := (contexts_' b)[unat runner_idx := ctx1]\<rparr>,
                       rs_payloads s,
                       tr2 @ [Ev_OnCompleteQueuedPayloads status]))))"

subsection \<open>Notions used to state the properties\<close>

text \<open>The sum of the payloads' batch sizes, as a natural number.\<close>

definition sum_batch_sizes :: "Payload list \<Rightarrow> nat" where
  "sum_batch_sizes ps = sum_list (map (\<lambda>p. unat (batch_size (request_provider_' p))) ps)"

text \<open>The events by kind: the completion callback, and the queries of the exposed names.\<close>

fun is_callback :: "event \<Rightarrow> bool" where
  "is_callback (Ev_OnCompleteQueuedPayloads st) = True"
| "is_callback e = False"

fun is_name_query :: "event \<Rightarrow> bool" where
  "is_name_query Ev_InputNames = True"
| "is_name_query Ev_OutputNames = True"
| "is_name_query e = False"

text \<open>The events of loading a model file into a session.\<close>

fun is_session_load :: "event \<Rightarrow> bool" where
  "is_session_load (Ev_OrtCreateSession path) = True"
| "is_session_load e = False"

text \<open>The events of fan-in, of the runtime invocation and of fan-out.\<close>

fun is_run_event :: "event \<Rightarrow> bool" where
  "is_run_event (Ev_SetInputTensor n) = True"
| "is_run_event Ev_OrtRun = True"
| "is_run_event Ev_ReadOutputTensors = True"
| "is_run_event e = False"

text \<open>
  The frame of a run: \<open>s'\<close> differs from \<open>s\<close> at most in the output container of the context
  and in events of fan-in, of the runtime invocation and of fan-out appended to the trace.
\<close>

definition extends_run :: "run_state \<Rightarrow> run_state \<Rightarrow> bool" where
  "extends_run s s' =
     (rs_payloads s' = rs_payloads s \<and> rs_input_names s' = rs_input_names s
      \<and> rs_input_buffers s' = rs_input_buffers s
      \<and> (rs_context s')\<lparr>output_tensors_' := []\<rparr> = (rs_context s)\<lparr>output_tensors_' := []\<rparr>
      \<and> (\<exists>evs. rs_trace s' = rs_trace s @ evs \<and> list_all is_run_event evs))"

text \<open>
  The first declared input, and the first declared output, that the validation of 4.2
  objects to: its name is not among the exposed names, or its datatype converts to the
  undefined runtime datatype.
\<close>

definition offending_input :: "externals \<Rightarrow> string list \<Rightarrow> ModelInput list \<Rightarrow> ModelInput option" where
  "offending_input ext exposed ios =
     find (\<lambda>io. in_name io \<notin> set exposed
                \<or> ConvertDataType ext (in_data_type io) = ONNX_TENSOR_ELEMENT_DATA_TYPE_UNDEFINED) ios"

definition offending_output :: "externals \<Rightarrow> string list \<Rightarrow> ModelOutput list \<Rightarrow> ModelOutput option" where
  "offending_output ext exposed ios =
     find (\<lambda>io. out_name io \<notin> set exposed
                \<or> ConvertDataType ext (out_data_type io) = ONNX_TENSOR_ELEMENT_DATA_TYPE_UNDEFINED) ios"

text \<open>A message names \<open>n\<close> when \<open>n\<close> occurs in it.\<close>

definition names :: "string \<Rightarrow> string \<Rightarrow> bool" where
  "names msg n = list_ex (\<lambda>k. take (length n) (drop k msg) = n) [0..<Suc (length msg)]"



subsection \<open>A model, a runtime stub and payloads to evaluate the definitions on\<close>

text \<open>
  The scenario of section 8 of the spec: a model with \<open>maxBatch = 4\<close> and one input \<open>x\<close> of
  shape \<open>[2]\<close> and type FP32, here with one output \<open>y\<close> of the same shape. On device 0 of
  compute capability 7.5 the override map names a file that the artifact map lacks.
\<close>

definition model_x :: ModelConfig where
  "model_x =
     \<lparr>cfg_name = ''m'', max_batch_size = 4, default_model_filename = ''model.onnx'',
      cc_model_filenames = [''7.5'' \<mapsto> ''model_75.onnx''],
      cfg_input = [\<lparr>in_name = ''x'', in_data_type = TYPE_FP32, in_dims = [2]\<rparr>],
      cfg_output = [\<lparr>out_name = ''y'', out_data_type = TYPE_FP32, out_dims = [2]\<rparr>]\<rparr>"

text \<open>
  A runtime stub: device 0 has compute capability 7.5, device 1 has 6.1 and no other device
  exists; sessions
  load; the session exposes the inputs \<open>a\<close>, \<open>b\<close>, \<open>x\<close> and the output \<open>y\<close>; FP32 converts to
  FLOAT and nothing else converts; \<open>GetInput\<close> looks the name up among the declared inputs;
  \<open>OrtRun\<close> succeeds and stores the fresh handles 10, 11, ... in the output slots.
\<close>

definition stub :: externals where
  "stub =
     \<lparr>cudaGetDeviceProperties =
        (\<lambda>d. if d = 0 then Inr (7, 5) else if d = 1 then Inr (6, 1)
             else Inl ''invalid device ordinal''),
      OrtSessionOptionsAppendExecutionProvider_CUDA = (\<lambda>d. None),
      OrtCreateSession = (\<lambda>path. (None, Some 1)),
      OrtCreateCpuAllocatorInfo = (None, Some 2),
      InputNames = (\<lambda>session. (Success, [''a'', ''b'', ''x''])),
      OutputNames = (\<lambda>session. (Success, [''y''])),
      ConvertDataType =
        (\<lambda>t. if t = TYPE_FP32 then ONNX_TENSOR_ELEMENT_DATA_TYPE_FLOAT
             else ONNX_TENSOR_ELEMENT_DATA_TYPE_UNDEFINED),
      DataType_Name = (\<lambda>t. if t = TYPE_FP32 then ''TYPE_FP32'' else ''TYPE_OTHER''),
      GetInput =
        (\<lambda>cfg n. case find (\<lambda>io. in_name io = n) (cfg_input cfg) of
                    Some io \<Rightarrow> (Success, io)
                  | None \<Rightarrow>
                      (Status INVALID_ARG ''unexpected inference input'',
                       \<lparr>in_name = [], in_data_type = TYPE_INVALID, in_dims = []\<rparr>)),
      OrtRun =
        (\<lambda>session in_names in_tensors out_names slots.
           (None, map (\<lambda>i. Some (10 + i)) [0..<length out_names]))\<rparr>"


text \<open>The same stub with a model file that does not load: no session, and an error status.\<close>

definition unloadable_stub :: externals where
  "unloadable_stub =
     stub\<lparr>OrtCreateSession :=
       (\<lambda>path. (Some \<lparr>OrtGetErrorCode = 3, OrtGetErrorMessage = ''no such file''\<rparr>, None))\<rparr>"

definition backend_x :: OnnxBackend where
  "backend_x =
     \<lparr>Config = model_x,
      contexts_' = [(new_Context ''m_0_cpu'' NO_GPU_DEVICE 4)
                      \<lparr>session_' := Some 1, allocator_info_' := Some 2\<rparr>]\<rparr>"


text \<open>
  A payload with an OK status that carries \<open>bs\<close> batches of the input \<open>x\<close> with the bytes
  \<open>bytes\<close>, and has written no output yet.
\<close>

definition payload_x :: "32 word \<Rightarrow> 8 word list \<Rightarrow> Payload" where
  "payload_x bs bytes =
     \<lparr>status_' = Success,
      request_provider_' =
        \<lparr>batch_size = bs, rh_input = [\<lparr>ri_name = ''x'', ri_dims = [2]\<rparr>],
         GetInputOverride = None, input_content = [''x'' \<mapsto> bytes]\<rparr>,
      response_provider_' = Map.empty, queue_timer_' = True, stats_' = True\<rparr>"

text \<open>A payload of batch size \<open>bs\<close> without any input.\<close>

definition payload_empty :: "32 word \<Rightarrow> Payload" where
  "payload_empty bs =
     \<lparr>status_' = Success,
      request_provider_' =
        \<lparr>batch_size = bs, rh_input = [], GetInputOverride = None, input_content = Map.empty\<rparr>,
      response_provider_' = Map.empty, queue_timer_' = False, stats_' = False\<rparr>"

section \<open>Lemmas\<close>

subsection \<open>The first loop of Context::Run\<close>

text \<open>
  The loop returns the internal error as soon as it meets a payload whose status is not OK.
  Otherwise it returns the sum of the batch sizes, computed in
  \<^verbatim>\<open>size_t\<close>, and the provider of the last payload.
\<close>

lemma Run_total_batch_size_not_ok:
  "\<exists>p\<in>set ps. \<not> IsOk (status_' p) \<Longrightarrow>
   Run_total_batch_size nm ps t prov =
     Inl (Status INTERNAL
           (''unexpected payload with non-OK status given to runner for ''
              @ [CHR 0x27] @ nm @ [CHR 0x27]))"
  by (induction ps arbitrary: t prov) auto

lemma Run_total_batch_size_ok:
  "\<forall>p\<in>set ps. IsOk (status_' p) \<Longrightarrow>
   Run_total_batch_size nm ps t prov =
     Inr (t + of_nat (sum_batch_sizes ps),
          if ps = [] then prov else Some (request_provider_' (last ps)))"
proof (induction ps arbitrary: t prov)
  case Nil
  then show ?case by (simp add: sum_batch_sizes_def)
next
  case (Cons p ps)
  then show ?case
    by (simp add: sum_batch_sizes_def add.assoc)
qed

lemma Run_total_batch_size_provider:
  "Run_total_batch_size nm ps t prov = Inr (t', prov') \<Longrightarrow>
   prov' = (if ps = [] then prov else Some (request_provider_' (last ps)))"
  by (induction ps arbitrary: t prov) (auto split: if_splits)

lemma Run_total_batch_size_null_provider:
  "Run_total_batch_size nm ps 0 None = Inr (t, None) \<Longrightarrow> t = 0"
proof -
  assume r: "Run_total_batch_size nm ps 0 None = Inr (t, None)"
  from Run_total_batch_size_provider [OF r] have "ps = []"
    by (simp split: if_splits)
  with r show "t = 0" by simp
qed

lemma Run_total_batch_size_error:
  "Run_total_batch_size nm ps t prov = Inl e \<Longrightarrow> \<not> IsOk e"
  by (induction ps arbitrary: t prov) (auto simp: IsOk_def split: if_splits)

subsection \<open>The total batch size and the maximum as machine integers\<close>

text \<open>
  The \<^verbatim>\<open>size_t\<close> total is the sum of the batch sizes as long as that
  sum is below \<open>2 ^ 64\<close>, which holds for every group of at most \<open>2 ^
  32\<close> payloads. The cast of a maximum batch size that is not negative keeps its value,
  and the maximum that \<^verbatim>\<open>CreateExecutionContext\<close> gives to a context is
  never negative.
\<close>

lemma unat_total: "n < 2 ^ 64 \<Longrightarrow> unat (of_nat n :: 64 word) = n"
  by (simp add: unat_of_nat)

lemma of_nat_total_eq_0:
  assumes "n < 2 ^ 64"
  shows "((of_nat n :: 64 word) = 0) = (n = 0)"
proof
  assume "(of_nat n :: 64 word) = 0"
  then have "unat (of_nat n :: 64 word) = 0" by simp
  then show "n = 0" using unat_total [OF assms] by simp
next
  assume "n = 0"
  then show "(of_nat n :: 64 word) = 0" by simp
qed

lemma of_nat_total_eq_1:
  assumes "n < 2 ^ 64"
  shows "((of_nat n :: 64 word) = 1) = (n = 1)"
proof
  assume "(of_nat n :: 64 word) = 1"
  then have "unat (of_nat n :: 64 word) = 1" by simp
  then show "n = 1" using unat_total [OF assms] by simp
next
  assume "n = 1"
  then show "(of_nat n :: 64 word) = 1" by simp
qed

lemma sum_batch_sizes_Nil: "sum_batch_sizes [] = 0"
  by (simp add: sum_batch_sizes_def)

lemma sum_batch_sizes_bound: "sum_batch_sizes ps \<le> length ps * (2 ^ 32 - 1)"
proof (induction ps)
  case Nil
  then show ?case by (simp add: sum_batch_sizes_def)
next
  case (Cons p ps)
  have "unat (batch_size (request_provider_' p)) < 2 ^ 32"
    using unsigned_less [of "batch_size (request_provider_' p)", where ?'a = nat] by simp
  then have "unat (batch_size (request_provider_' p)) \<le> 2 ^ 32 - 1" by simp
  with Cons show ?case by (simp add: sum_batch_sizes_def)
qed

lemma sum_batch_sizes_fits:
  assumes "length ps \<le> 2 ^ 32"
  shows "sum_batch_sizes ps < 2 ^ 64"
proof -
  have "length ps * (2 ^ 32 - 1) \<le> 2 ^ 32 * (2 ^ 32 - 1 :: nat)"
    using assms by (rule mult_le_mono1)
  also have "\<dots> < 2 ^ 64" by simp
  finally show ?thesis using sum_batch_sizes_bound [of ps] by simp
qed

lemma scast_nonneg:
  assumes "0 \<le>s (m :: 32 word)"
  shows "unat (scast m :: 64 word) = nat (sint m)"
proof -
  have nn: "0 \<le> sint m" using assms by (simp add: word_sle_eq)
  have lt: "sint m < 2 ^ 31" using sint_lt [of m] by simp
  have "(scast m :: 64 word) = of_int (sint m)" by (rule scast_eq)
  also have "\<dots> = of_nat (nat (sint m))" using nn by (simp only: of_nat_nat)
  finally have "unat (scast m :: 64 word) = unat (of_nat (nat (sint m)) :: 64 word)" by simp
  moreover have "nat (sint m) < 2 ^ 64" using nn lt by (simp add: nat_less_iff)
  ultimately show ?thesis by (simp only: unat_total)
qed

lemma mbs_nonneg: "0 \<le>s mbs cfg"
  by (simp add: mbs_def NO_BATCHING_def word_sle_eq)

subsection \<open>The frame of a run\<close>

text \<open>
  Fan-in, the invocation and fan-out leave the payloads, the locals and the context alone, but
  for the output container, and append only their own events to the trace. Neither
  \<^verbatim>\<open>SetInputTensor\<close> nor \<^verbatim>\<open>ReadOutputTensors\<close>
  ever returns an OK status, so \<^verbatim>\<open>Context::Run\<close> returns an OK status
  only when it returns before fan-in. After the invocation the output container holds what
  \<^verbatim>\<open>OrtRun\<close> stored in its slots.
\<close>

lemma extends_run_refl: "extends_run s s"
  by (simp add: extends_run_def)

lemma extends_run_trans: "extends_run s s1 \<Longrightarrow> extends_run s1 s2 \<Longrightarrow> extends_run s s2"
  by (auto simp: extends_run_def)

lemma SetInputTensor_result:
  "SetInputTensor n d ds t s = (st, s') \<Longrightarrow> \<not> IsOk st \<and> extends_run s s'"
  by (auto simp: SetInputTensor_def IsOk_def extends_run_def)

lemma ReadOutputTensors_not_ok: "\<not> IsOk (fst (ReadOutputTensors base t ns s))"
  by (simp add: ReadOutputTensors_def IsOk_def)

lemma ReadOutputTensors_extends: "extends_run s (snd (ReadOutputTensors base t ns s))"
  by (simp add: ReadOutputTensors_def extends_run_def)

lemma ort_error_status_not_ok: "\<not> IsOk (ort_error_status e)"
  by (simp add: ort_error_status_def IsOk_def)

lemma Run_inputs_extends: "extends_run s (snd (Run_inputs ext base t ins s))"
proof (cases ins)
  case Nil
  then show ?thesis by (simp add: extends_run_refl)
next
  case (Cons inp rest)
  then show ?thesis
    by (auto simp: extends_run_refl split: prod.splits dest: SetInputTensor_result)
qed

lemma Run_inputs_ok: "IsOk (fst (Run_inputs ext base t ins s)) \<Longrightarrow> ins = [] \<and> Run_inputs ext base t ins s = (Success, s)"
proof (cases ins)
  case Nil
  then show ?thesis by simp
next
  case (Cons inp rest)
  assume "IsOk (fst (Run_inputs ext base t ins s))"
  with Cons show ?thesis
    by (auto split: prod.splits if_splits dest: SetInputTensor_result)
qed

lemma Run_overrides_extends: "extends_run s (snd (Run_overrides t ovs s))"
proof (cases ovs)
  case Nil
  then show ?thesis by (simp add: extends_run_refl)
next
  case (Cons pr rest)
  then show ?thesis
    by (auto simp: extends_run_refl split: prod.splits dest: SetInputTensor_result)
qed

lemma Run_overrides_ok: "IsOk (fst (Run_overrides t ovs s)) \<Longrightarrow> ovs = [] \<and> Run_overrides t ovs s = (Success, s)"
proof (cases ovs)
  case Nil
  then show ?thesis by simp
next
  case (Cons pr rest)
  assume "IsOk (fst (Run_overrides t ovs s))"
  with Cons show ?thesis
    by (auto split: prod.splits if_splits dest: SetInputTensor_result)
qed

lemma Run_invoke_not_ok: "\<not> IsOk (fst (Run_invoke ext base t s))"
  by (simp add: Run_invoke_def Let_def ort_error_status_not_ok ReadOutputTensors_not_ok
      split: prod.splits option.splits)

lemma Run_invoke_extends: "extends_run s (snd (Run_invoke ext base t s))"
  by (simp add: Run_invoke_def Let_def ReadOutputTensors_def extends_run_def
      split: prod.splits option.splits)

lemma Run_invoke_output_container:
  "output_tensors_' (rs_context (snd (Run_invoke ext base t s))) =
     store_outputs (length (cfg_output (Config base)))
       (snd (OrtRun ext (session_' (rs_context s)) (rs_input_names s)
               (input_tensors_' (rs_context s)) (map out_name (cfg_output (Config base)))
               (output_tensors_' (rs_context s)
                  @ replicate (length (cfg_output (Config base))) None)))
       (output_tensors_' (rs_context s) @ replicate (length (cfg_output (Config base))) None)"
  by (simp add: Run_invoke_def Let_def ReadOutputTensors_def split: prod.splits option.splits)

lemma store_outputs_holds:
  "i < n \<Longrightarrow> i < length res \<Longrightarrow> i < length old \<Longrightarrow> res ! i = Some h \<Longrightarrow>
   h \<in> set (non_null (store_outputs n res old))"
proof -
  have mem: "\<And>xs. Some h \<in> set xs \<Longrightarrow> h \<in> set (non_null xs)"
  proof -
    fix xs :: "handle option list"
    show "Some h \<in> set xs \<Longrightarrow> h \<in> set (non_null xs)"
      by (induction xs rule: non_null.induct) auto
  qed
  assume "i < n" "i < length res" "i < length old" "res ! i = Some h"
  then have "store_outputs n res old ! i = Some h" and "i < length (store_outputs n res old)"
    by (simp_all add: store_outputs_def)
  then have "Some h \<in> set (store_outputs n res old)"
    by (metis nth_mem)
  then show ?thesis by (rule mem)
qed

lemma Run_onnx_not_ok: "\<not> IsOk (fst (Run_onnx ext base t prov s))"
  by (simp add: Run_onnx_def Run_invoke_not_ok split: prod.splits)

lemma Run_onnx_extends: "extends_run s (snd (Run_onnx ext base t prov s))"
proof -
  obtain st1 s1 where r1: "Run_inputs ext base t (rh_input prov) s = (st1, s1)"
    by (cases "Run_inputs ext base t (rh_input prov) s")
  have e1: "extends_run s s1" using Run_inputs_extends [of s ext base t "rh_input prov"] r1 by simp
  obtain st2 s2 where r2: "Run_overrides t (case GetInputOverride prov of None \<Rightarrow> [] | Some m \<Rightarrow> m) s1 = (st2, s2)"
    by (cases "Run_overrides t (case GetInputOverride prov of None \<Rightarrow> [] | Some m \<Rightarrow> m) s1")
  have e2: "extends_run s1 s2" using Run_overrides_extends [of s1 t] r2
    by (metis snd_conv)
  have e3: "extends_run s2 (snd (Run_invoke ext base t s2))" by (rule Run_invoke_extends)
  show ?thesis
    using r1 r2 e1 e2 e3 by (auto simp: Run_onnx_def intro: extends_run_trans)
qed

lemma Context_Run_extends:
  "extends_run (initial_state ctx ps tr) (snd (Context_Run ext base ctx ps tr))"
  by (simp add: Context_Run_def Let_def extends_run_refl Run_onnx_extends
      split: sum.splits prod.splits option.splits)

lemma Context_Run_trace:
  "\<exists>evs. rs_trace (snd (Context_Run ext base ctx ps tr)) = tr @ evs \<and> list_all is_run_event evs"
  using Context_Run_extends [of ctx ps tr ext base]
  by (simp add: extends_run_def initial_state_def)

lemma Context_Run_payloads: "rs_payloads (snd (Context_Run ext base ctx ps tr)) = ps"
  using Context_Run_extends [of ctx ps tr ext base]
  by (simp add: extends_run_def initial_state_def)

lemma Context_Run_ok_initial:
  "IsOk (fst (Context_Run ext base ctx ps tr)) \<Longrightarrow>
   Context_Run ext base ctx ps tr = (Success, initial_state ctx ps tr)"
  using Run_onnx_not_ok
  by (auto simp: Context_Run_def Let_def IsOk_def
           split: sum.splits prod.splits option.splits if_splits
           dest: Run_total_batch_size_error)

subsection \<open>The events of a run\<close>

text \<open>
  The timers, fan-in, the invocation, fan-out and the releases are neither callbacks nor
  queries of the exposed names.
\<close>

lemma start_timers_trace:
  "\<exists>evs. snd (start_timers gpu ps tr) = tr @ evs \<and> filter is_callback evs = []"
proof (induction ps arbitrary: tr)
  case Nil
  then show ?case by simp
next
  case (Cons p ps)
  obtain evs where
    "snd (start_timers gpu ps
            (if stats_' p then tr @ [Ev_StartComputeTimer, Ev_SetGPUDevice gpu] else tr)) =
       (if stats_' p then tr @ [Ev_StartComputeTimer, Ev_SetGPUDevice gpu] else tr) @ evs"
    and "filter is_callback evs = []"
    using Cons.IH by blast
  then show ?case
    by (cases "stats_' p") (auto split: prod.splits)
qed

lemma run_events_no_callback: "list_all is_run_event evs \<Longrightarrow> filter is_callback evs = []"
proof (induction evs)
  case Nil
  then show ?case by simp
next
  case (Cons e evs)
  then show ?case by (cases e) auto
qed

lemma release_events_no_callback: "filter is_callback (map Ev_OrtReleaseValue hs) = []"
  by (induction hs) auto

lemma Context_Run_no_name_query:
  "\<exists>evs. rs_trace (snd (Context_Run ext base ctx ps tr)) = tr @ evs \<and> filter is_name_query evs = []"
proof -
  obtain evs where e: "rs_trace (snd (Context_Run ext base ctx ps tr)) = tr @ evs"
    and r: "list_all is_run_event evs"
    using Context_Run_trace by blast
  have "filter is_name_query evs = []"
    using r
  proof (induction evs)
    case Nil
    then show ?case by simp
  next
    case (Cons a evs)
    then show ?case by (cases a) auto
  qed
  with e show ?thesis by blast
qed

subsection \<open>The creation of a context\<close>

text \<open>
  The steps after \<^verbatim>\<open>emplace_back\<close> keep the name, the device and the
  maximum batch size of the context, and the configured maximum is read nowhere else. The
  session of the context is the one that \<^verbatim>\<open>OrtCreateSession\<close> returned
  for the path of the chosen file, and no other file is loaded. The status of the session is
  dropped: with the stub whose model file does not load, the creation returns success.
\<close>

lemma init_context_frame:
  "init_context ext cfg gpu_device path c tr = (st, c', tr') \<Longrightarrow>
   name_' c' = name_' c \<and> gpu_device_' c' = gpu_device_' c
   \<and> max_batch_size_' c' = max_batch_size_' c
   \<and> input_tensors_' c' = input_tensors_' c \<and> output_tensors_' c' = output_tensors_' c"
  by (auto simp: init_context_def create_allocator_info_def
      split: prod.splits option.splits if_splits)

lemma validate_context_cong:
  "cfg_input cfg = cfg_input cfg' \<Longrightarrow> cfg_output cfg = cfg_output cfg' \<Longrightarrow>
   validate_context ext cfg c tr = validate_context ext cfg' c tr"
  by (simp add: validate_context_def cong: prod.case_cong if_cong)

lemma init_context_cong:
  "cfg_input cfg = cfg_input cfg' \<Longrightarrow> cfg_output cfg = cfg_output cfg' \<Longrightarrow>
   init_context ext cfg gpu_device path c tr = init_context ext cfg' gpu_device path c tr"
  by (simp add: init_context_def validate_context_cong [of cfg cfg']
      cong: prod.case_cong option.case_cong)

lemma choose_cc_model_filename_cong:
  "cfg_name (Config b) = cfg_name (Config b') \<Longrightarrow>
   default_model_filename (Config b) = default_model_filename (Config b') \<Longrightarrow>
   cc_model_filenames (Config b) = cc_model_filenames (Config b') \<Longrightarrow>
   choose_cc_model_filename ext b gpu_device = choose_cc_model_filename ext b' gpu_device"
  by (simp add: choose_cc_model_filename_def Name_def Let_def
      cong: sum.case_cong prod.case_cong option.case_cong)

lemma mbs_negative: "sint m \<le> 0 \<Longrightarrow> mbs (cfg\<lparr>max_batch_size := m\<rparr>) = mbs (cfg\<lparr>max_batch_size := 0\<rparr>)"
  by (simp add: mbs_def word_sle_eq)

lemma CreateExecutionContext_negative:
  assumes "sint m \<le> 0"
  shows "fst (CreateExecutionContext ext instance_name gpu_device paths
                (b\<lparr>Config := (Config b)\<lparr>max_batch_size := m\<rparr>\<rparr>) tr)
         = fst (CreateExecutionContext ext instance_name gpu_device paths
                  (b\<lparr>Config := (Config b)\<lparr>max_batch_size := 0\<rparr>\<rparr>) tr)"
proof -
  let ?bm = "b\<lparr>Config := (Config b)\<lparr>max_batch_size := m\<rparr>\<rparr>"
  let ?b0 = "b\<lparr>Config := (Config b)\<lparr>max_batch_size := 0\<rparr>\<rparr>"
  have ch: "choose_cc_model_filename ext ?bm gpu_device = choose_cc_model_filename ext ?b0 gpu_device"
    by (rule choose_cc_model_filename_cong) simp_all
  have ic: "\<And>path c tr. init_context ext (Config ?bm) gpu_device path c tr
                        = init_context ext (Config ?b0) gpu_device path c tr"
    by (rule init_context_cong) simp_all
  have m: "mbs (Config ?bm) = mbs (Config ?b0)"
    using mbs_negative [OF assms] by simp
  have nm: "Name ?bm = Name ?b0" by (simp add: Name_def)
  show ?thesis
    unfolding CreateExecutionContext_def ch ic m nm Let_def
    by (auto split: sum.splits prod.splits option.splits)
qed

lemma create_session_loaded:
  "gpu_device = NO_GPU_DEVICE \<or> OrtSessionOptionsAppendExecutionProvider_CUDA ext gpu_device = None \<Longrightarrow>
   OrtCreateSession ext path = (None, session) \<Longrightarrow>
   create_session ext gpu_device path tr = (None, session, tr @ [Ev_OrtCreateSession path])"
  by (auto simp: create_session_def)

lemma ValidateOutputs_trace: "snd (ValidateOutputs ext c ios tr) = tr @ [Ev_OutputNames]"
  by (simp add: ValidateOutputs_def split: prod.splits)

lemma create_allocator_info_trace:
  "snd (snd (create_allocator_info ext c tr)) = tr @ [Ev_OrtCreateCpuAllocatorInfo]"
  by (simp add: create_allocator_info_def split: prod.splits)

lemma validate_context_trace:
  "\<exists>evs. snd (validate_context ext cfg c tr) = tr @ evs \<and> filter is_session_load evs = []"
  by (auto simp: validate_context_def ValidateInputs_def ValidateOutputs_def split: prod.splits)

lemma create_session_result:
  "create_session ext gpu_device path tr =
     (if gpu_device = NO_GPU_DEVICE \<or> OrtSessionOptionsAppendExecutionProvider_CUDA ext gpu_device = None
      then (fst (OrtCreateSession ext path), snd (OrtCreateSession ext path),
            tr @ [Ev_OrtCreateSession path])
      else (OrtSessionOptionsAppendExecutionProvider_CUDA ext gpu_device, None, tr))"
  by (auto simp: create_session_def split: prod.splits option.splits)

lemma init_context_session:
  assumes "init_context ext cfg gpu_device path c tr = (st, c', tr')"
  shows "session_' c' = fst (snd (create_session ext gpu_device path tr))
         \<and> (\<exists>evs. tr' = snd (snd (create_session ext gpu_device path tr)) @ evs
                  \<and> filter is_session_load evs = [])"
proof -
  obtain os session tr1 where cs: "create_session ext gpu_device path tr = (os, session, tr1)"
    using prod_cases3 by blast
  let ?c1 = "c\<lparr>session_' := session\<rparr>"
  obtain stv tr2 where v: "validate_context ext cfg ?c1 tr1 = (stv, tr2)"
    by (cases "validate_context ext cfg ?c1 tr1")
  obtain e1 where e1: "tr2 = tr1 @ e1" "filter is_session_load e1 = []"
    using validate_context_trace [of ext cfg ?c1 tr1] v by auto
  show ?thesis
  proof (cases "IsOk stv")
    case False
    with assms cs v e1 show ?thesis by (auto simp: init_context_def)
  next
    case True
    with assms cs v e1 show ?thesis
      by (auto simp: init_context_def create_allocator_info_def split: prod.splits)
  qed
qed

lemma CreateExecutionContext_session_status_dropped:
  "CreateExecutionContext unloadable_stub ''m_0_cpu'' NO_GPU_DEVICE
     [''model.onnx'' \<mapsto> ''/models/m/1/model.onnx''] (backend_x\<lparr>contexts_' := []\<rparr>) []
   = (Success,
      backend_x\<lparr>contexts_' := [(new_Context ''m_0_cpu'' NO_GPU_DEVICE 4)\<lparr>allocator_info_' := Some 2\<rparr>]\<rparr>,
      [Ev_OrtCreateSession ''/models/m/1/model.onnx'', Ev_InputNames, Ev_OutputNames,
       Ev_OrtCreateCpuAllocatorInfo])"
  by (simp add: CreateExecutionContext_def choose_cc_model_filename_def backend_x_def
      model_x_def init_context_def create_session_def validate_context_def ValidateInputs_def
      ValidateOutputs_def CheckAllowedModelInput_def CheckAllowedModelOutput_def
      create_allocator_info_def unloadable_stub_def stub_def IsOk_def Success_def
      NO_GPU_DEVICE_def new_Context_def mbs_def NO_BATCHING_def word_sle_eq)

subsection \<open>The validation of the declared inputs and outputs\<close>

text \<open>
  The validation loops stop at the first offending declaration with a status that names it,
  and return success when there is none.
\<close>

lemma names_infix: "names (pre @ n @ post) n"
proof -
  have "length pre \<in> set [0..<Suc (length (pre @ n @ post))]" by simp
  moreover have "take (length n) (drop (length pre) (pre @ n @ post)) = n" by simp
  ultimately show ?thesis unfolding names_def list_ex_iff by blast
qed

lemma IsOk_Success: "IsOk Success"
  by (simp add: IsOk_def Success_def)

lemma CheckAllowedModelInput_absent:
  "in_name io \<notin> set exposed \<Longrightarrow>
   \<not> IsOk (CheckAllowedModelInput io exposed)
   \<and> names (Message (CheckAllowedModelInput io exposed)) (in_name io)"
  using names_infix [of "''unexpected inference input '' @ [CHR 0x27]" "in_name io" "[CHR 0x27]"]
  by (simp add: CheckAllowedModelInput_def IsOk_def)

lemma CheckAllowedModelOutput_absent:
  "out_name io \<notin> set exposed \<Longrightarrow>
   \<not> IsOk (CheckAllowedModelOutput io exposed)
   \<and> names (Message (CheckAllowedModelOutput io exposed)) (out_name io)"
  using names_infix [of "''unexpected inference output '' @ [CHR 0x27]" "out_name io" "[CHR 0x27]"]
  by (simp add: CheckAllowedModelOutput_def IsOk_def)

lemma ValidateInputs_each_offending:
  "offending_input ext exposed ios = Some io \<Longrightarrow>
   \<not> IsOk (ValidateInputs_each ext nm exposed ios)
   \<and> names (Message (ValidateInputs_each ext nm exposed ios)) (in_name io)"
proof (induction ios)
  case Nil
  then show ?case by (simp add: offending_input_def)
next
  case (Cons a ios)
  show ?case
  proof (cases "in_name a \<in> set exposed")
    case False
    with Cons.prems have "io = a" by (simp add: offending_input_def)
    with False show ?thesis
      using CheckAllowedModelInput_absent [of a exposed] by simp
  next
    case True
    then have ok: "IsOk (CheckAllowedModelInput a exposed)"
      by (simp add: CheckAllowedModelInput_def IsOk_Success)
    show ?thesis
    proof (cases "ConvertDataType ext (in_data_type a) = ONNX_TENSOR_ELEMENT_DATA_TYPE_UNDEFINED")
      case undefined: True
      with Cons.prems have "io = a" by (simp add: offending_input_def)
      then show ?thesis
        using ok undefined
          names_infix [of "''unsupported datatype '' @ DataType_Name ext (in_data_type a)
                             @ '' for input '' @ [CHR 0x27]"
                          "in_name a" "[CHR 0x27] @ '' for model '' @ [CHR 0x27] @ nm @ [CHR 0x27]"]
        by (simp add: IsOk_def)
    next
      case False
      with True Cons.prems have "offending_input ext exposed ios = Some io"
        by (simp add: offending_input_def)
      then show ?thesis
        using Cons.IH ok False by simp
    qed
  qed
qed

lemma ValidateInputs_each_none:
  "offending_input ext exposed ios = None \<Longrightarrow> ValidateInputs_each ext nm exposed ios = Success"
  by (induction ios)
     (auto simp: offending_input_def CheckAllowedModelInput_def IsOk_Success split: if_splits)

lemma ValidateOutputs_each_offending:
  "offending_output ext exposed ios = Some io \<Longrightarrow>
   \<not> IsOk (ValidateOutputs_each ext nm exposed ios)
   \<and> names (Message (ValidateOutputs_each ext nm exposed ios)) (out_name io)"
proof (induction ios)
  case Nil
  then show ?case by (simp add: offending_output_def)
next
  case (Cons a ios)
  show ?case
  proof (cases "out_name a \<in> set exposed")
    case False
    with Cons.prems have "io = a" by (simp add: offending_output_def)
    with False show ?thesis
      using CheckAllowedModelOutput_absent [of a exposed] by simp
  next
    case True
    then have ok: "IsOk (CheckAllowedModelOutput a exposed)"
      by (simp add: CheckAllowedModelOutput_def IsOk_Success)
    show ?thesis
    proof (cases "ConvertDataType ext (out_data_type a) = ONNX_TENSOR_ELEMENT_DATA_TYPE_UNDEFINED")
      case undefined: True
      with Cons.prems have "io = a" by (simp add: offending_output_def)
      then show ?thesis
        using ok undefined
          names_infix [of "''unsupported datatype '' @ DataType_Name ext (out_data_type a)
                             @ '' for output '' @ [CHR 0x27]"
                          "out_name a" "[CHR 0x27] @ '' for model '' @ [CHR 0x27] @ nm @ [CHR 0x27]"]
        by (simp add: IsOk_def)
    next
      case False
      with True Cons.prems have "offending_output ext exposed ios = Some io"
        by (simp add: offending_output_def)
      then show ?thesis
        using Cons.IH ok False by simp
    qed
  qed
qed

section \<open>The properties\<close>



text \<open>
  C2. For a group of payloads that all carry an OK status, on a context whose
  \<open>max_batch_size_'\<close> is not negative (as
  \<^verbatim>\<open>CreateExecutionContext\<close> makes it, lemma \<open>mbs_nonneg\<close>)
  and with the \<^verbatim>\<open>size_t\<close> accumulator not wrapping (the sum of the
  batch sizes is below \<open>2 ^ 64\<close>, as for every group of at most \<open>2 ^
  32\<close> payloads, lemma \<open>sum_batch_sizes_fits\<close>): if the total is not 1 and
  exceeds \<open>max_batch_size_'\<close>, \<^verbatim>\<open>Context::Run\<close> returns the
  batch-size error in its initial state, that is with nothing appended to the trace (no
  fan-in, no runtime invocation) and no container touched; a total of zero returns success in
  the initial state; in every other case, in particular for a total of exactly 1 whatever the
  maximum, the check passes and \<^verbatim>\<open>Context::Run\<close> continues with fan-in.
\<close>

theorem C2_batch_size_check:
  assumes ok: "\<forall>p\<in>set ps. IsOk (status_' p)"
    and nonneg: "0 \<le>s max_batch_size_' ctx"
    and fits: "sum_batch_sizes ps < 2 ^ 64"
  shows "Context_Run ext base ctx ps tr =
           (if sum_batch_sizes ps \<noteq> 1 \<and> sint (max_batch_size_' ctx) < int (sum_batch_sizes ps)
            then (Status INTERNAL
                    (''dynamic batch size '' @ to_string (int (sum_batch_sizes ps)) @ '' for ''
                       @ [CHR 0x27] @ name_' ctx @ [CHR 0x27] @ '', max allowed is ''
                       @ to_string (sint (max_batch_size_' ctx))),
                  initial_state ctx ps tr)
            else if sum_batch_sizes ps = 0 then (Success, initial_state ctx ps tr)
            else Run_onnx ext base (of_nat (sum_batch_sizes ps)) (request_provider_' (last ps))
                   (initial_state ctx ps tr))"
proof -
  let ?n = "sum_batch_sizes ps"
  let ?t = "of_nat ?n :: 64 word"
  have loop: "Run_total_batch_size (name_' ctx) ps 0 None =
                Inr (?t, if ps = [] then None else Some (request_provider_' (last ps)))"
    using Run_total_batch_size_ok [OF ok, of "name_' ctx" 0 None] by simp
  have zero: "(?t = 0) = (?n = 0)" using fits by (rule of_nat_total_eq_0)
  have one: "(?t = 1) = (?n = 1)" using fits by (rule of_nat_total_eq_1)
  have gt: "(scast (max_batch_size_' ctx) < ?t) = (sint (max_batch_size_' ctx) < int ?n)"
    using scast_nonneg [OF nonneg] unat_total [OF fits] nonneg
    by (simp add: word_less_nat_alt word_sle_eq nat_less_iff)
  have uint_t: "uint ?t = int ?n"
    by (simp only: uint_nat [of ?t] unat_total [OF fits])
  have max_nonneg: "0 \<le> sint (max_batch_size_' ctx)"
    using nonneg by (simp add: word_sle_eq)
  show ?thesis
  proof (cases "?n = 0")
    case True
    then show ?thesis
      using max_nonneg by (simp add: Context_Run_def loop)
  next
    case False
    then have "ps \<noteq> []" by (auto simp: sum_batch_sizes_Nil)
    with False show ?thesis
      by (simp add: Context_Run_def loop zero one gt uint_t)
  qed
qed

text \<open>
  C2 at a group of total batch size 5 on a context of maximum 4 (rejected), and at a group of
  total batch size 1 on a non-batching context of maximum 0 (accepted).
\<close>

theorem C2_batch_size_check_witness:
  "Context_Run stub backend_x (new_Context ''m_0_cpu'' NO_GPU_DEVICE 4)
       [payload_x 2 [], payload_x 3 []] []
     = (Status INTERNAL
          (''dynamic batch size 5 for '' @ [CHR 0x27] @ ''m_0_cpu'' @ [CHR 0x27]
             @ '', max allowed is 4''),
        initial_state (new_Context ''m_0_cpu'' NO_GPU_DEVICE 4) [payload_x 2 [], payload_x 3 []] [])
   \<and> Context_Run stub backend_x (new_Context ''m_0_cpu'' NO_GPU_DEVICE NO_BATCHING)
         [payload_x 1 []] []
     = Run_onnx stub backend_x 1 (request_provider_' (payload_x 1 []))
         (initial_state (new_Context ''m_0_cpu'' NO_GPU_DEVICE NO_BATCHING) [payload_x 1 []] [])"
proof -
  have ok: "\<forall>p\<in>set [payload_x 2 [], payload_x 3 []]. IsOk (status_' p)"
    by (simp add: payload_x_def IsOk_def Success_def)
  have ok1: "\<forall>p\<in>set [payload_x 1 []]. IsOk (status_' p)"
    by (simp add: payload_x_def IsOk_def Success_def)
  have n: "sum_batch_sizes [payload_x 2 [], payload_x 3 []] = 5"
    by (simp add: sum_batch_sizes_def payload_x_def)
  have n1: "sum_batch_sizes [payload_x 1 []] = 1"
    by (simp add: sum_batch_sizes_def payload_x_def)
  have m: "0 \<le>s max_batch_size_' (new_Context ''m_0_cpu'' NO_GPU_DEVICE 4)"
    by (simp add: new_Context_def word_sle_eq)
  have m0: "0 \<le>s max_batch_size_' (new_Context ''m_0_cpu'' NO_GPU_DEVICE NO_BATCHING)"
    by (simp add: new_Context_def NO_BATCHING_def)
  have reject: "Context_Run stub backend_x (new_Context ''m_0_cpu'' NO_GPU_DEVICE 4)
       [payload_x 2 [], payload_x 3 []] []
     = (Status INTERNAL
          (''dynamic batch size 5 for '' @ [CHR 0x27] @ ''m_0_cpu'' @ [CHR 0x27]
             @ '', max allowed is 4''),
        initial_state (new_Context ''m_0_cpu'' NO_GPU_DEVICE 4) [payload_x 2 [], payload_x 3 []] [])"
    using C2_batch_size_check [OF ok m, of stub backend_x "[]"]
    by (simp add: n new_Context_def to_string_def string_of_nat.simps)
  have accept: "Context_Run stub backend_x (new_Context ''m_0_cpu'' NO_GPU_DEVICE NO_BATCHING)
         [payload_x 1 []] []
     = Run_onnx stub backend_x 1 (request_provider_' (payload_x 1 []))
         (initial_state (new_Context ''m_0_cpu'' NO_GPU_DEVICE NO_BATCHING) [payload_x 1 []] [])"
    using C2_batch_size_check [OF ok1 m0, of stub backend_x "[]"]
    by (simp add: n1)
  show ?thesis using reject accept by simp
qed

text \<open>
  C3. The round trip of fan-in and fan-out, evaluated on a group of two payloads of batch size
  1 that each supply the eight bytes of one FP32 input \<open>x\<close> of shape
  \<open>[2]\<close>: \<^verbatim>\<open>Context::Run\<close> returns the status of
  \<^verbatim>\<open>SetInputTensor\<close>, which returns at its first statement; no buffer
  is assembled, the runtime is not invoked, and neither payload holds any byte of the output
  \<open>y\<close> afterwards. The comments of the source say that the inputs are concatenated
  and the outputs copied into the payload responses; the code does neither.
\<close>

theorem C3_round_trip_at_two_payloads:
  "fst (Context_Run stub backend_x (hd (contexts_' backend_x))
          [payload_x 1 [1, 2, 3, 4, 5, 6, 7, 8], payload_x 1 [9, 10, 11, 12, 13, 14, 15, 16]] [])
     = Status UNSUPPORTED ''SetInputTensor() implemented''
   \<and> rs_trace (snd (Context_Run stub backend_x (hd (contexts_' backend_x))
          [payload_x 1 [1, 2, 3, 4, 5, 6, 7, 8], payload_x 1 [9, 10, 11, 12, 13, 14, 15, 16]] []))
     = [Ev_SetInputTensor ''x'']
   \<and> rs_input_buffers (snd (Context_Run stub backend_x (hd (contexts_' backend_x))
          [payload_x 1 [1, 2, 3, 4, 5, 6, 7, 8], payload_x 1 [9, 10, 11, 12, 13, 14, 15, 16]] []))
     = []
   \<and> map (\<lambda>p. response_provider_' p ''y'')
         (rs_payloads (snd (Context_Run stub backend_x (hd (contexts_' backend_x))
            [payload_x 1 [1, 2, 3, 4, 5, 6, 7, 8], payload_x 1 [9, 10, 11, 12, 13, 14, 15, 16]] [])))
     = [None, None]"
  by (simp add: Context_Run_def backend_x_def payload_x_def stub_def initial_state_def
      new_Context_def IsOk_def Success_def Run_onnx_def model_x_def SetInputTensor_def
      NO_GPU_DEVICE_def)


text \<open>
  C5. For every invocation of the dispatcher, with a runner index in range or not: the events
  that the invocation appends to the trace end with the completion callback, and no event
  before it is a callback. It is invoked exactly once, with the internal error about the
  runner index when the index is out of range and with the status of
  \<^verbatim>\<open>Context::Run\<close> otherwise.
\<close>

theorem C5_callback_exactly_once:
  "\<exists>evs. snd (snd (OnnxBackend_Run ext b runner_idx ps tr)) =
           tr @ evs @
           [Ev_OnCompleteQueuedPayloads
              (if length (contexts_' b) \<le> unat runner_idx
               then Status INTERNAL
                      (''unexpected runner index'' @ to_string (uint runner_idx)
                         @ '', max allowed '' @ to_string (int (length (contexts_' b))))
               else fst (Context_Run ext b (contexts_' b ! unat runner_idx)
                           (fst (start_timers (gpu_device_' (contexts_' b ! unat runner_idx)) ps tr))
                           (snd (start_timers (gpu_device_' (contexts_' b ! unat runner_idx)) ps tr))))]
         \<and> filter is_callback evs = []"
proof (cases "length (contexts_' b) \<le> unat runner_idx")
  case True
  then show ?thesis by (simp add: OnnxBackend_Run_def)
next
  case False
  let ?ctx = "contexts_' b ! unat runner_idx"
  obtain ps1 tr1 where st: "start_timers (gpu_device_' ?ctx) ps tr = (ps1, tr1)"
    by (cases "start_timers (gpu_device_' ?ctx) ps tr")
  obtain e1 where e1: "tr1 = tr @ e1" "filter is_callback e1 = []"
    using start_timers_trace [of "gpu_device_' ?ctx" ps tr] st by auto
  obtain status s where run: "Context_Run ext b ?ctx ps1 tr1 = (status, s)"
    by (cases "Context_Run ext b ?ctx ps1 tr1")
  obtain e2 where e2: "rs_trace s = tr1 @ e2" "list_all is_run_event e2"
    using Context_Run_trace [of ext b ?ctx ps1 tr1] run by auto
  have "snd (snd (OnnxBackend_Run ext b runner_idx ps tr)) =
          tr @ (e1 @ e2 @ map Ev_OrtReleaseValue (non_null (input_tensors_' (rs_context s)))
                  @ map Ev_OrtReleaseValue (non_null (output_tensors_' (rs_context s))))
             @ [Ev_OnCompleteQueuedPayloads status]"
    using False st run e1 e2
    by (simp add: OnnxBackend_Run_def ReleaseOrtRunResources_def)
  moreover have "filter is_callback
                   (e1 @ e2 @ map Ev_OrtReleaseValue (non_null (input_tensors_' (rs_context s)))
                      @ map Ev_OrtReleaseValue (non_null (output_tensors_' (rs_context s)))) = []"
    using e1 e2 by (simp add: run_events_no_callback release_events_no_callback)
  ultimately show ?thesis
    using False st run by (simp only: if_False fst_conv snd_conv) blast
qed

text \<open>
  C6. When at least one payload of the group carries a status that is not OK,
  \<^verbatim>\<open>Context::Run\<close> returns the internal error about the unexpected
  payload, in its initial state: no event is appended to the trace (no fan-in assembly, no
  runtime invocation) and nothing is written to the context or to the payloads.
\<close>

theorem C6_non_ok_payload_rejected:
  assumes "\<exists>p\<in>set ps. \<not> IsOk (status_' p)"
  shows "Context_Run ext base ctx ps tr =
           (Status INTERNAL
              (''unexpected payload with non-OK status given to runner for ''
                 @ [CHR 0x27] @ name_' ctx @ [CHR 0x27]),
            initial_state ctx ps tr)"
  using Run_total_batch_size_not_ok [OF assms, of "name_' ctx" 0 None]
  by (simp add: Context_Run_def)

text \<open>
  C6 at a group of two payloads of which the second carries an error status.
\<close>

theorem C6_non_ok_payload_rejected_witness:
  "\<not> IsOk (status_' ((payload_x 2 [])\<lparr>status_' := Status INVALID_ARG ''bad request''\<rparr>))
   \<and> Context_Run stub backend_x (hd (contexts_' backend_x))
         [payload_x 1 [], (payload_x 2 [])\<lparr>status_' := Status INVALID_ARG ''bad request''\<rparr>] []
       = (Status INTERNAL
            (''unexpected payload with non-OK status given to runner for ''
               @ [CHR 0x27] @ ''m_0_cpu'' @ [CHR 0x27]),
          initial_state (hd (contexts_' backend_x))
            [payload_x 1 [], (payload_x 2 [])\<lparr>status_' := Status INVALID_ARG ''bad request''\<rparr>] [])"
  using C6_non_ok_payload_rejected
    [where ps = "[payload_x 1 [], (payload_x 2 [])\<lparr>status_' := Status INVALID_ARG ''bad request''\<rparr>]"
       and ext = stub and base = backend_x and ctx = "hd (contexts_' backend_x)" and tr = "[]"]
  by (simp add: IsOk_def backend_x_def new_Context_def)

text \<open>
  C7. For a group of payloads that all carry an OK status and whose batch sizes sum to zero,
  \<^verbatim>\<open>Context::Run\<close> returns success in its initial state: no fan-in, no
  runtime invocation and no output written.
\<close>

theorem C7_zero_total_batch_size:
  assumes "\<forall>p\<in>set ps. IsOk (status_' p)" and "sum_batch_sizes ps = 0"
  shows "Context_Run ext base ctx ps tr = (Success, initial_state ctx ps tr)"
  using Run_total_batch_size_ok [OF assms(1), of "name_' ctx" 0 None] assms(2)
  by (simp add: Context_Run_def)

text \<open>
  C7 at a group of two payloads of batch size zero.
\<close>

theorem C7_zero_total_batch_size_witness:
  "IsOk (status_' (payload_x 0 [])) \<and> IsOk (status_' (payload_empty 0))
   \<and> sum_batch_sizes [payload_x 0 [], payload_empty 0] = 0
   \<and> Context_Run stub backend_x (hd (contexts_' backend_x)) [payload_x 0 [], payload_empty 0] []
       = (Success, initial_state (hd (contexts_' backend_x)) [payload_x 0 [], payload_empty 0] [])"
  using C7_zero_total_batch_size
    [where ps = "[payload_x 0 [], payload_empty 0]"
       and ext = stub and base = backend_x and ctx = "hd (contexts_' backend_x)" and tr = "[]"]
  by (simp add: IsOk_def Success_def payload_x_def payload_empty_def sum_batch_sizes_def)

text \<open>
  C8. When the model file of the instance is resolved and the session is loaded, and the
  runtime reports the exposed input names: if some declared input is absent from them or has a
  datatype that converts to the undefined runtime datatype,
  \<^verbatim>\<open>CreateExecutionContext\<close> returns a status that is not OK and whose
  message names the first such input; if every declared input passes and some declared output
  is absent from the exposed output names or has such a datatype, the status is not OK and
  names the first such output. The exposed input names are queried exactly once during the
  creation and the exposed output names at most once, and
  \<^verbatim>\<open>Context::Run\<close> queries neither.
\<close>

theorem C8_schema_validation_at_creation:
  assumes resolved: "choose_cc_model_filename ext b gpu_device = Inr (cc, f)" "paths f = Some path"
    and provider: "gpu_device = NO_GPU_DEVICE
                   \<or> OrtSessionOptionsAppendExecutionProvider_CUDA ext gpu_device = None"
    and loaded: "OrtCreateSession ext path = (None, session)"
    and exposed: "InputNames ext session = (st_in, exposed_in)" "IsOk st_in"
  shows "(offending_input ext exposed_in (cfg_input (Config b)) = Some io \<longrightarrow>
            \<not> IsOk (fst (CreateExecutionContext ext instance_name gpu_device paths b tr))
            \<and> names (Message (fst (CreateExecutionContext ext instance_name gpu_device paths b tr)))
                 (in_name io))
         \<and> (offending_input ext exposed_in (cfg_input (Config b)) = None
              \<and> OutputNames ext session = (st_out, exposed_out) \<and> IsOk st_out
              \<and> offending_output ext exposed_out (cfg_output (Config b)) = Some oo \<longrightarrow>
            \<not> IsOk (fst (CreateExecutionContext ext instance_name gpu_device paths b tr))
            \<and> names (Message (fst (CreateExecutionContext ext instance_name gpu_device paths b tr)))
                 (out_name oo))
         \<and> (\<exists>evs. snd (snd (CreateExecutionContext ext instance_name gpu_device paths b tr)) = tr @ evs
                  \<and> length (filter (\<lambda>e. e = Ev_InputNames) evs) = 1
                  \<and> length (filter (\<lambda>e. e = Ev_OutputNames) evs) \<le> 1)
         \<and> (\<exists>evs. rs_trace (snd (Context_Run ext base ctx ps tr')) = tr' @ evs
                  \<and> filter is_name_query evs = [])"
proof -
  define tr0 where
    "tr0 = (if gpu_device = NO_GPU_DEVICE then tr else tr @ [Ev_cudaGetDeviceProperties gpu_device])"
  let ?tr1 = "tr0 @ [Ev_OrtCreateSession path]"
  let ?tr2 = "tr0 @ [Ev_OrtCreateSession path, Ev_InputNames]"
  let ?c1 = "(new_Context instance_name gpu_device (mbs (Config b)))\<lparr>session_' := session\<rparr>"
  let ?vin = "ValidateInputs_each ext instance_name exposed_in (cfg_input (Config b))"
  let ?CE = "CreateExecutionContext ext instance_name gpu_device paths b tr"
  have cs: "create_session ext gpu_device path tr0 = (None, session, ?tr1)"
    using create_session_loaded [OF provider loaded] by simp
  have vi: "ValidateInputs ext ?c1 (cfg_input (Config b)) ?tr1 = (?vin, ?tr2)"
    using exposed by (simp add: ValidateInputs_def new_Context_def)
  obtain st_o tr_o where vo: "ValidateOutputs ext ?c1 (cfg_output (Config b)) ?tr2 = (st_o, tr_o)"
    by (cases "ValidateOutputs ext ?c1 (cfg_output (Config b)) ?tr2")
  have tr_o: "tr_o = ?tr2 @ [Ev_OutputNames]"
    using ValidateOutputs_trace [of ext ?c1 "cfg_output (Config b)" ?tr2] vo
    by simp
  obtain st_a c_a tr_a where ca: "create_allocator_info ext ?c1 tr_o = (st_a, c_a, tr_a)"
    using prod_cases3 by blast
  have tr_a: "tr_a = tr_o @ [Ev_OrtCreateCpuAllocatorInfo]"
    using create_allocator_info_trace [of ext ?c1 tr_o] ca by simp
  have CE: "?CE = (if \<not> IsOk ?vin
                   then (?vin, b\<lparr>contexts_' := contexts_' b @ [?c1]\<rparr>, ?tr2)
                   else if \<not> IsOk st_o
                   then (st_o, b\<lparr>contexts_' := contexts_' b @ [?c1]\<rparr>, tr_o)
                   else (st_a, b\<lparr>contexts_' := contexts_' b @ [c_a]\<rparr>, tr_a))"
    using resolved
    unfolding CreateExecutionContext_def Let_def tr0_def [symmetric]
    by (simp add: init_context_def cs validate_context_def vi vo ca)
  have part_in: "offending_input ext exposed_in (cfg_input (Config b)) = Some io \<longrightarrow>
                   \<not> IsOk (fst ?CE) \<and> names (Message (fst ?CE)) (in_name io)"
  proof
    assume "offending_input ext exposed_in (cfg_input (Config b)) = Some io"
    from ValidateInputs_each_offending [OF this, of instance_name]
    show "\<not> IsOk (fst ?CE) \<and> names (Message (fst ?CE)) (in_name io)"
      by (simp add: CE)
  qed
  have part_out: "offending_input ext exposed_in (cfg_input (Config b)) = None
              \<and> OutputNames ext session = (st_out, exposed_out) \<and> IsOk st_out
              \<and> offending_output ext exposed_out (cfg_output (Config b)) = Some oo \<longrightarrow>
            \<not> IsOk (fst ?CE) \<and> names (Message (fst ?CE)) (out_name oo)"
  proof
    assume a: "offending_input ext exposed_in (cfg_input (Config b)) = None
              \<and> OutputNames ext session = (st_out, exposed_out) \<and> IsOk st_out
              \<and> offending_output ext exposed_out (cfg_output (Config b)) = Some oo"
    then have vin_ok: "?vin = Success" using ValidateInputs_each_none by blast
    have "st_o = ValidateOutputs_each ext instance_name exposed_out (cfg_output (Config b))"
      using a vo by (simp add: ValidateOutputs_def new_Context_def)
    moreover have "\<not> IsOk (ValidateOutputs_each ext instance_name exposed_out (cfg_output (Config b)))
        \<and> names (Message (ValidateOutputs_each ext instance_name exposed_out (cfg_output (Config b))))
             (out_name oo)"
      using a ValidateOutputs_each_offending by blast
    ultimately show "\<not> IsOk (fst ?CE) \<and> names (Message (fst ?CE)) (out_name oo)"
      by (simp add: CE vin_ok IsOk_Success)
  qed
  have part_once: "\<exists>evs. snd (snd ?CE) = tr @ evs
                  \<and> length (filter (\<lambda>e. e = Ev_InputNames) evs) = 1
                  \<and> length (filter (\<lambda>e. e = Ev_OutputNames) evs) \<le> 1"
  proof -
    obtain e0 where e0: "tr0 = tr @ e0" "filter (\<lambda>e. e = Ev_InputNames) e0 = []"
      "filter (\<lambda>e. e = Ev_OutputNames) e0 = []"
      by (cases "gpu_device = NO_GPU_DEVICE") (simp_all add: tr0_def)
    then show ?thesis by (simp add: CE tr_o tr_a)
  qed
  show ?thesis
    using part_in part_out part_once Context_Run_no_name_query [of ext base ctx ps tr']
    by blast
qed

text \<open>
  C8 at the scenario of the spec, inputs \<open>a\<close> and \<open>c\<close> declared where
  the runtime does not expose \<open>c\<close>, and at a declared output whose datatype has no
  runtime datatype, with the statuses that the creation returns.
\<close>

theorem C8_schema_validation_at_creation_witness:
  "offending_input stub [''a'', ''b'', ''x'']
      [\<lparr>in_name = ''a'', in_data_type = TYPE_FP32, in_dims = [2]\<rparr>,
       \<lparr>in_name = ''c'', in_data_type = TYPE_FP32, in_dims = [2]\<rparr>]
     = Some \<lparr>in_name = ''c'', in_data_type = TYPE_FP32, in_dims = [2]\<rparr>
   \<and> \<not> IsOk (fst (CreateExecutionContext stub ''m_0_cpu'' NO_GPU_DEVICE
                      [''model.onnx'' \<mapsto> ''/models/m/1/model.onnx'']
                      \<lparr>Config = model_x\<lparr>cfg_input :=
                                   [\<lparr>in_name = ''a'', in_data_type = TYPE_FP32, in_dims = [2]\<rparr>,
                                    \<lparr>in_name = ''c'', in_data_type = TYPE_FP32, in_dims = [2]\<rparr>]\<rparr>,
                        contexts_' = []\<rparr> []))
   \<and> names (Message (fst (CreateExecutionContext stub ''m_0_cpu'' NO_GPU_DEVICE
                      [''model.onnx'' \<mapsto> ''/models/m/1/model.onnx'']
                      \<lparr>Config = model_x\<lparr>cfg_input :=
                                   [\<lparr>in_name = ''a'', in_data_type = TYPE_FP32, in_dims = [2]\<rparr>,
                                    \<lparr>in_name = ''c'', in_data_type = TYPE_FP32, in_dims = [2]\<rparr>]\<rparr>,
                        contexts_' = []\<rparr> []))) ''c''
   \<and> offending_output stub [''y''] [\<lparr>out_name = ''y'', out_data_type = TYPE_INT32, out_dims = [2]\<rparr>]
       = Some \<lparr>out_name = ''y'', out_data_type = TYPE_INT32, out_dims = [2]\<rparr>
   \<and> \<not> IsOk (fst (CreateExecutionContext stub ''m_0_cpu'' NO_GPU_DEVICE
                      [''model.onnx'' \<mapsto> ''/models/m/1/model.onnx'']
                      \<lparr>Config = model_x\<lparr>cfg_output :=
                                   [\<lparr>out_name = ''y'', out_data_type = TYPE_INT32, out_dims = [2]\<rparr>]\<rparr>,
                        contexts_' = []\<rparr> []))
   \<and> names (Message (fst (CreateExecutionContext stub ''m_0_cpu'' NO_GPU_DEVICE
                      [''model.onnx'' \<mapsto> ''/models/m/1/model.onnx'']
                      \<lparr>Config = model_x\<lparr>cfg_output :=
                                   [\<lparr>out_name = ''y'', out_data_type = TYPE_INT32, out_dims = [2]\<rparr>]\<rparr>,
                        contexts_' = []\<rparr> []))) ''y''
   \<and> fst (CreateExecutionContext stub ''m_0_cpu'' NO_GPU_DEVICE
            [''model.onnx'' \<mapsto> ''/models/m/1/model.onnx'']
            \<lparr>Config = model_x\<lparr>cfg_input :=
                         [\<lparr>in_name = ''a'', in_data_type = TYPE_FP32, in_dims = [2]\<rparr>,
                          \<lparr>in_name = ''c'', in_data_type = TYPE_FP32, in_dims = [2]\<rparr>]\<rparr>,
              contexts_' = []\<rparr> [])
       = Status INVALID_ARG (''unexpected inference input '' @ [CHR 0x27] @ ''c'' @ [CHR 0x27])
   \<and> fst (CreateExecutionContext stub ''m_0_cpu'' NO_GPU_DEVICE
            [''model.onnx'' \<mapsto> ''/models/m/1/model.onnx'']
            \<lparr>Config = model_x\<lparr>cfg_output :=
                         [\<lparr>out_name = ''y'', out_data_type = TYPE_INT32, out_dims = [2]\<rparr>]\<rparr>,
              contexts_' = []\<rparr> [])
       = Status INTERNAL
           (''unsupported datatype TYPE_OTHER for output '' @ [CHR 0x27] @ ''y'' @ [CHR 0x27]
              @ '' for model '' @ [CHR 0x27] @ ''m_0_cpu'' @ [CHR 0x27])"
proof -
  let ?paths = "[''model.onnx'' \<mapsto> ''/models/m/1/model.onnx'']"
  let ?ins = "[\<lparr>in_name = ''a'', in_data_type = TYPE_FP32, in_dims = [2]\<rparr>,
               \<lparr>in_name = ''c'', in_data_type = TYPE_FP32, in_dims = [2]\<rparr>]"
  let ?outs = "[\<lparr>out_name = ''y'', out_data_type = TYPE_INT32, out_dims = [2]\<rparr>]"
  let ?b1 = "\<lparr>Config = model_x\<lparr>cfg_input := ?ins\<rparr>, contexts_' = []\<rparr>"
  let ?b2 = "\<lparr>Config = model_x\<lparr>cfg_output := ?outs\<rparr>, contexts_' = []\<rparr>"
  have ch1: "choose_cc_model_filename stub ?b1 NO_GPU_DEVICE = Inr ([], ''model.onnx'')"
    and ch2: "choose_cc_model_filename stub ?b2 NO_GPU_DEVICE = Inr ([], ''model.onnx'')"
    by (simp_all add: choose_cc_model_filename_def model_x_def)
  have p: "?paths ''model.onnx'' = Some ''/models/m/1/model.onnx''" by simp
  have prov: "NO_GPU_DEVICE = NO_GPU_DEVICE
              \<or> OrtSessionOptionsAppendExecutionProvider_CUDA stub NO_GPU_DEVICE = None"
    by simp
  have ld: "OrtCreateSession stub ''/models/m/1/model.onnx'' = (None, Some 1)"
    by (simp add: stub_def)
  have ex: "InputNames stub (Some 1) = (Success, [''a'', ''b'', ''x''])" "IsOk Success"
    by (simp_all add: stub_def IsOk_def Success_def)
  have exo: "OutputNames stub (Some 1) = (Success, [''y''])"
    by (simp add: stub_def)
  have off_in: "offending_input stub [''a'', ''b'', ''x''] ?ins
                  = Some \<lparr>in_name = ''c'', in_data_type = TYPE_FP32, in_dims = [2]\<rparr>"
    by (simp add: offending_input_def stub_def)
  have in_ok: "offending_input stub [''a'', ''b'', ''x''] (cfg_input (Config ?b2)) = None"
    by (simp add: offending_input_def stub_def model_x_def)
  have off_out: "offending_output stub [''y''] ?outs
                  = Some \<lparr>out_name = ''y'', out_data_type = TYPE_INT32, out_dims = [2]\<rparr>"
    by (simp add: offending_output_def stub_def)
  have i1: "cfg_input (Config ?b1) = ?ins" by simp
  have o2: "cfg_output (Config ?b2) = ?outs" by simp
  note t1 = C8_schema_validation_at_creation
      [where ext = stub and b = ?b1 and gpu_device = NO_GPU_DEVICE and cc = "[]"
         and f = "''model.onnx''" and paths = ?paths and path = "''/models/m/1/model.onnx''"
         and session = "Some 1" and st_in = Success and exposed_in = "[''a'', ''b'', ''x'']"
         and io = "\<lparr>in_name = ''c'', in_data_type = TYPE_FP32, in_dims = [2]\<rparr>"
         and instance_name = "''m_0_cpu''" and tr = "[]",
       OF ch1 p prov ld ex]
  note t2 = C8_schema_validation_at_creation
      [where ext = stub and b = ?b2 and gpu_device = NO_GPU_DEVICE and cc = "[]"
         and f = "''model.onnx''" and paths = ?paths and path = "''/models/m/1/model.onnx''"
         and session = "Some 1" and st_in = Success and exposed_in = "[''a'', ''b'', ''x'']"
         and st_out = Success and exposed_out = "[''y'']"
         and oo = "\<lparr>out_name = ''y'', out_data_type = TYPE_INT32, out_dims = [2]\<rparr>"
         and instance_name = "''m_0_cpu''" and tr = "[]",
       OF ch2 p prov ld ex]
  from t1 off_in i1
  have r1: "\<not> IsOk (fst (CreateExecutionContext stub ''m_0_cpu'' NO_GPU_DEVICE ?paths ?b1 []))
            \<and> names (Message (fst (CreateExecutionContext stub ''m_0_cpu'' NO_GPU_DEVICE ?paths ?b1 [])))
                 ''c''"
    by simp
  from t2 in_ok exo ex(2) off_out o2
  have r2: "\<not> IsOk (fst (CreateExecutionContext stub ''m_0_cpu'' NO_GPU_DEVICE ?paths ?b2 []))
            \<and> names (Message (fst (CreateExecutionContext stub ''m_0_cpu'' NO_GPU_DEVICE ?paths ?b2 [])))
                 ''y''"
    by simp
  have v1: "fst (CreateExecutionContext stub ''m_0_cpu'' NO_GPU_DEVICE ?paths ?b1 [])
       = Status INVALID_ARG (''unexpected inference input '' @ [CHR 0x27] @ ''c'' @ [CHR 0x27])"
    by (simp add: CreateExecutionContext_def choose_cc_model_filename_def
        model_x_def init_context_def create_session_def validate_context_def ValidateInputs_def
        CheckAllowedModelInput_def new_Context_def stub_def IsOk_def Success_def NO_GPU_DEVICE_def)
  have v2: "fst (CreateExecutionContext stub ''m_0_cpu'' NO_GPU_DEVICE ?paths ?b2 [])
       = Status INTERNAL
           (''unsupported datatype TYPE_OTHER for output '' @ [CHR 0x27] @ ''y'' @ [CHR 0x27]
              @ '' for model '' @ [CHR 0x27] @ ''m_0_cpu'' @ [CHR 0x27])"
    by (simp add: CreateExecutionContext_def choose_cc_model_filename_def
        model_x_def init_context_def create_session_def validate_context_def ValidateInputs_def
        ValidateOutputs_def CheckAllowedModelInput_def CheckAllowedModelOutput_def new_Context_def
        stub_def IsOk_def Success_def NO_GPU_DEVICE_def)
  show ?thesis using off_in off_out r1 r2 v1 v2 by simp
qed

text \<open>
  C9. Let \<open>f\<close> be the default model filename for a CPU instance and, for a GPU
  instance whose device reports the compute capability \<open>major.minor\<close>, the entry
  of the override map for that string, or the default model filename when there is none. When
  \<open>f\<close> is not a key of the artifact map,
  \<^verbatim>\<open>CreateExecutionContext\<close> returns the internal error that names
  \<open>f\<close>, the backend with its list of contexts is unchanged and no file is loaded.
  When the artifact map gives the path of \<open>f\<close>, one context with the name and the
  device of the instance is appended, the one file that is loaded is that path, and the
  session of the context is the one that \<^verbatim>\<open>OrtCreateSession\<close> returned
  for it (for a GPU instance, when the CUDA execution provider could be appended; otherwise no
  file is loaded and the context has no session).
\<close>

theorem C9_model_file_of_instance:
  assumes chosen:
    "gpu_device = NO_GPU_DEVICE \<and> f = default_model_filename (Config b)
     \<or> gpu_device \<noteq> NO_GPU_DEVICE
       \<and> cudaGetDeviceProperties ext gpu_device = Inr (major, minor)
       \<and> f = (case cc_model_filenames (Config b) (to_string major @ ''.'' @ to_string minor) of
                None \<Rightarrow> default_model_filename (Config b)
              | Some g \<Rightarrow> g)"
  shows "(paths f = None \<longrightarrow>
            fst (CreateExecutionContext ext instance_name gpu_device paths b tr) =
              Status INTERNAL
                (''unable to find model '' @ [CHR 0x27] @ f @ [CHR 0x27] @ '' for '' @ Name b)
            \<and> fst (snd (CreateExecutionContext ext instance_name gpu_device paths b tr)) = b
            \<and> filter is_session_load
                 (snd (snd (CreateExecutionContext ext instance_name gpu_device paths b tr)))
               = filter is_session_load tr)
         \<and> (paths f = Some path \<longrightarrow>
              (\<exists>c. contexts_' (fst (snd (CreateExecutionContext ext instance_name gpu_device paths b tr)))
                     = contexts_' b @ [c]
                   \<and> name_' c = instance_name \<and> gpu_device_' c = gpu_device
                   \<and> session_' c =
                       (if gpu_device = NO_GPU_DEVICE
                           \<or> OrtSessionOptionsAppendExecutionProvider_CUDA ext gpu_device = None
                        then snd (OrtCreateSession ext path) else None))
              \<and> filter is_session_load
                   (snd (snd (CreateExecutionContext ext instance_name gpu_device paths b tr)))
                 = filter is_session_load tr
                   @ (if gpu_device = NO_GPU_DEVICE
                         \<or> OrtSessionOptionsAppendExecutionProvider_CUDA ext gpu_device = None
                      then [Ev_OrtCreateSession path] else []))"
proof -
  define tr0 where
    "tr0 = (if gpu_device = NO_GPU_DEVICE then tr else tr @ [Ev_cudaGetDeviceProperties gpu_device])"
  have tr0: "filter is_session_load tr0 = filter is_session_load tr"
    by (simp add: tr0_def)
  obtain cc where ch: "choose_cc_model_filename ext b gpu_device = Inr (cc, f)"
    using chosen by (auto simp: choose_cc_model_filename_def Let_def)
  let ?CE = "CreateExecutionContext ext instance_name gpu_device paths b tr"
  have missing: "paths f = None \<longrightarrow>
            fst ?CE = Status INTERNAL
                (''unable to find model '' @ [CHR 0x27] @ f @ [CHR 0x27] @ '' for '' @ Name b)
            \<and> fst (snd ?CE) = b
            \<and> filter is_session_load (snd (snd ?CE)) = filter is_session_load tr"
    using ch tr0 unfolding CreateExecutionContext_def Let_def tr0_def [symmetric]
    by simp
  have found: "paths f = Some path \<longrightarrow>
              (\<exists>c. contexts_' (fst (snd ?CE)) = contexts_' b @ [c]
                   \<and> name_' c = instance_name \<and> gpu_device_' c = gpu_device
                   \<and> session_' c =
                       (if gpu_device = NO_GPU_DEVICE
                           \<or> OrtSessionOptionsAppendExecutionProvider_CUDA ext gpu_device = None
                        then snd (OrtCreateSession ext path) else None))
              \<and> filter is_session_load (snd (snd ?CE))
                 = filter is_session_load tr
                   @ (if gpu_device = NO_GPU_DEVICE
                         \<or> OrtSessionOptionsAppendExecutionProvider_CUDA ext gpu_device = None
                      then [Ev_OrtCreateSession path] else [])"
  proof
    assume p: "paths f = Some path"
    obtain st c tr' where
      i: "init_context ext (Config b) gpu_device path
            (new_Context instance_name gpu_device (mbs (Config b))) tr0 = (st, c, tr')"
      using prod_cases3 by blast
    have CE: "?CE = (st, b\<lparr>contexts_' := contexts_' b @ [c]\<rparr>, tr')"
      using ch p i unfolding CreateExecutionContext_def Let_def tr0_def [symmetric] by simp
    have frame: "name_' c = instance_name" "gpu_device_' c = gpu_device"
      using init_context_frame [OF i] by (simp_all add: new_Context_def)
    obtain evs where s: "session_' c = fst (snd (create_session ext gpu_device path tr0))"
      and t: "tr' = snd (snd (create_session ext gpu_device path tr0)) @ evs"
      and e: "filter is_session_load evs = []"
      using init_context_session [OF i] by blast
    show "(\<exists>c. contexts_' (fst (snd ?CE)) = contexts_' b @ [c]
                   \<and> name_' c = instance_name \<and> gpu_device_' c = gpu_device
                   \<and> session_' c =
                       (if gpu_device = NO_GPU_DEVICE
                           \<or> OrtSessionOptionsAppendExecutionProvider_CUDA ext gpu_device = None
                        then snd (OrtCreateSession ext path) else None))
              \<and> filter is_session_load (snd (snd ?CE))
                 = filter is_session_load tr
                   @ (if gpu_device = NO_GPU_DEVICE
                         \<or> OrtSessionOptionsAppendExecutionProvider_CUDA ext gpu_device = None
                      then [Ev_OrtCreateSession path] else [])"
      using frame s t e tr0
      by (simp add: CE create_session_result)
  qed
  show ?thesis using missing found by blast
qed

text \<open>
  C9 at a CPU instance (the default file is loaded), at device 0 of capability 7.5 (the
  override, once missing from the artifact map and once present and loaded) and at device 1 of
  capability 6.1 (no override, the default file is loaded).
\<close>

theorem C9_model_file_of_instance_witness:
  "filter is_session_load
      (snd (snd (CreateExecutionContext stub ''m_0_cpu'' NO_GPU_DEVICE
                   [''model.onnx'' \<mapsto> ''/models/m/1/model.onnx''] backend_x [])))
     = [Ev_OrtCreateSession ''/models/m/1/model.onnx'']
   \<and> map session_'
         (contexts_' (fst (snd (CreateExecutionContext stub ''m_0_cpu'' NO_GPU_DEVICE
                                  [''model.onnx'' \<mapsto> ''/models/m/1/model.onnx''] backend_x []))))
     = map session_' (contexts_' backend_x) @ [Some 1]
   \<and> fst (CreateExecutionContext stub ''m_0_gpu0'' 0
            [''model.onnx'' \<mapsto> ''/models/m/1/model.onnx''] backend_x [])
     = Status INTERNAL (''unable to find model '' @ [CHR 0x27] @ ''model_75.onnx'' @ [CHR 0x27]
                          @ '' for m'')
   \<and> fst (snd (CreateExecutionContext stub ''m_0_gpu0'' 0
                  [''model.onnx'' \<mapsto> ''/models/m/1/model.onnx''] backend_x [])) = backend_x
   \<and> filter is_session_load
        (snd (snd (CreateExecutionContext stub ''m_0_gpu0'' 0
                     [''model.onnx'' \<mapsto> ''/models/m/1/model.onnx''] backend_x []))) = []
   \<and> filter is_session_load
        (snd (snd (CreateExecutionContext stub ''m_0_gpu0'' 0
                     [''model.onnx'' \<mapsto> ''/models/m/1/model.onnx'',
                      ''model_75.onnx'' \<mapsto> ''/models/m/1/model_75.onnx''] backend_x [])))
     = [Ev_OrtCreateSession ''/models/m/1/model_75.onnx'']
   \<and> filter is_session_load
        (snd (snd (CreateExecutionContext stub ''m_0_gpu1'' 1
                     [''model.onnx'' \<mapsto> ''/models/m/1/model.onnx'',
                      ''model_75.onnx'' \<mapsto> ''/models/m/1/model_75.onnx''] backend_x [])))
     = [Ev_OrtCreateSession ''/models/m/1/model.onnx'']"
proof -
  let ?P = "[''model.onnx'' \<mapsto> ''/models/m/1/model.onnx'']"
  let ?P2 = "[''model.onnx'' \<mapsto> ''/models/m/1/model.onnx'',
              ''model_75.onnx'' \<mapsto> ''/models/m/1/model_75.onnx'']"
  have cfg: "default_model_filename (Config backend_x) = ''model.onnx''"
    "cc_model_filenames (Config backend_x) ''7.5'' = Some ''model_75.onnx''"
    "cc_model_filenames (Config backend_x) ''6.1'' = None"
    "Name backend_x = ''m''"
    by (simp_all add: backend_x_def model_x_def Name_def)
  have str: "to_string 7 = ''7''" "to_string 5 = ''5''" "to_string 6 = ''6''" "to_string 1 = ''1''"
    by (simp_all add: to_string_def string_of_nat.simps)
  have ext: "cudaGetDeviceProperties stub 0 = Inr (7, 5)" "cudaGetDeviceProperties stub 1 = Inr (6, 1)"
    "OrtSessionOptionsAppendExecutionProvider_CUDA stub 0 = None"
    "OrtSessionOptionsAppendExecutionProvider_CUDA stub 1 = None"
    "\<And>path. OrtCreateSession stub path = (None, Some 1)"
    by (simp_all add: stub_def)
  have gpu: "(0 :: int) \<noteq> NO_GPU_DEVICE" "(1 :: int) \<noteq> NO_GPU_DEVICE"
    by (simp_all add: NO_GPU_DEVICE_def)
  have h_cpu: "NO_GPU_DEVICE = NO_GPU_DEVICE \<and> ''model.onnx'' = default_model_filename (Config backend_x)
     \<or> NO_GPU_DEVICE \<noteq> NO_GPU_DEVICE
       \<and> cudaGetDeviceProperties stub NO_GPU_DEVICE = Inr (0, 0)
       \<and> ''model.onnx'' = (case cc_model_filenames (Config backend_x) (to_string 0 @ ''.'' @ to_string 0) of
                None \<Rightarrow> default_model_filename (Config backend_x)
              | Some g \<Rightarrow> g)"
    by (simp add: cfg)
  have h_gpu0: "(0 :: int) = NO_GPU_DEVICE \<and> ''model_75.onnx'' = default_model_filename (Config backend_x)
     \<or> (0 :: int) \<noteq> NO_GPU_DEVICE
       \<and> cudaGetDeviceProperties stub 0 = Inr (7, 5)
       \<and> ''model_75.onnx'' = (case cc_model_filenames (Config backend_x) (to_string 7 @ ''.'' @ to_string 5) of
                None \<Rightarrow> default_model_filename (Config backend_x)
              | Some g \<Rightarrow> g)"
    by (simp add: cfg str ext gpu)
  have h_gpu1: "(1 :: int) = NO_GPU_DEVICE \<and> ''model.onnx'' = default_model_filename (Config backend_x)
     \<or> (1 :: int) \<noteq> NO_GPU_DEVICE
       \<and> cudaGetDeviceProperties stub 1 = Inr (6, 1)
       \<and> ''model.onnx'' = (case cc_model_filenames (Config backend_x) (to_string 6 @ ''.'' @ to_string 1) of
                None \<Rightarrow> default_model_filename (Config backend_x)
              | Some g \<Rightarrow> g)"
    by (simp add: cfg str ext gpu)
  note cpu = C9_model_file_of_instance
      [where gpu_device = NO_GPU_DEVICE and f = "''model.onnx''" and b = backend_x and ext = stub
         and major = 0 and minor = 0 and paths = ?P and path = "''/models/m/1/model.onnx''"
         and instance_name = "''m_0_cpu''" and tr = "[]", OF h_cpu]
  note gpu0_missing = C9_model_file_of_instance
      [where gpu_device = 0 and f = "''model_75.onnx''" and b = backend_x and ext = stub
         and major = 7 and minor = 5 and paths = ?P and path = "''/models/m/1/model_75.onnx''"
         and instance_name = "''m_0_gpu0''" and tr = "[]", OF h_gpu0]
  note gpu0_found = C9_model_file_of_instance
      [where gpu_device = 0 and f = "''model_75.onnx''" and b = backend_x and ext = stub
         and major = 7 and minor = 5 and paths = ?P2 and path = "''/models/m/1/model_75.onnx''"
         and instance_name = "''m_0_gpu0''" and tr = "[]", OF h_gpu0]
  note gpu1 = C9_model_file_of_instance
      [where gpu_device = 1 and f = "''model.onnx''" and b = backend_x and ext = stub
         and major = 6 and minor = 1 and paths = ?P2 and path = "''/models/m/1/model.onnx''"
         and instance_name = "''m_0_gpu1''" and tr = "[]", OF h_gpu1]
  have r1: "filter is_session_load
      (snd (snd (CreateExecutionContext stub ''m_0_cpu'' NO_GPU_DEVICE ?P backend_x [])))
     = [Ev_OrtCreateSession ''/models/m/1/model.onnx'']"
    and r2: "map session_'
         (contexts_' (fst (snd (CreateExecutionContext stub ''m_0_cpu'' NO_GPU_DEVICE ?P backend_x []))))
     = map session_' (contexts_' backend_x) @ [Some 1]"
    using cpu by (auto simp: ext)
  have r3: "fst (CreateExecutionContext stub ''m_0_gpu0'' 0 ?P backend_x [])
     = Status INTERNAL (''unable to find model '' @ [CHR 0x27] @ ''model_75.onnx'' @ [CHR 0x27]
                          @ '' for m'')"
    and r4: "fst (snd (CreateExecutionContext stub ''m_0_gpu0'' 0 ?P backend_x [])) = backend_x"
    and r5: "filter is_session_load
        (snd (snd (CreateExecutionContext stub ''m_0_gpu0'' 0 ?P backend_x []))) = []"
    using gpu0_missing by (simp_all add: cfg)
  have r6: "filter is_session_load
        (snd (snd (CreateExecutionContext stub ''m_0_gpu0'' 0 ?P2 backend_x [])))
     = [Ev_OrtCreateSession ''/models/m/1/model_75.onnx'']"
    using gpu0_found by (simp add: ext gpu)
  have r7: "filter is_session_load
        (snd (snd (CreateExecutionContext stub ''m_0_gpu1'' 1 ?P2 backend_x [])))
     = [Ev_OrtCreateSession ''/models/m/1/model.onnx'']"
    using gpu1 by (simp add: ext gpu)
  show ?thesis using r1 r2 r3 r4 r5 r6 r7 by simp
qed

text \<open>
  C10. When the model file is resolved, \<^verbatim>\<open>CreateExecutionContext\<close>
  appends one context, whose \<open>max_batch_size_'\<close> is \<open>NO_BATCHING\<close>
  when the configured maximum is zero or negative and the configured maximum otherwise. A
  negative maximum is not rejected: the status returned is the one returned for the same
  configuration with a maximum of zero.
\<close>

theorem C10_max_batch_size_of_context:
  assumes "choose_cc_model_filename ext b gpu_device = Inr (cc, f)" and "paths f = Some path"
  shows "(\<exists>c. contexts_' (fst (snd (CreateExecutionContext ext instance_name gpu_device paths b tr)))
               = contexts_' b @ [c]
             \<and> max_batch_size_' c =
                 (if sint (max_batch_size (Config b)) \<le> 0 then NO_BATCHING
                  else max_batch_size (Config b)))
         \<and> (sint (max_batch_size (Config b)) \<le> 0 \<longrightarrow>
              fst (CreateExecutionContext ext instance_name gpu_device paths b tr)
              = fst (CreateExecutionContext ext instance_name gpu_device paths
                       (b\<lparr>Config := (Config b)\<lparr>max_batch_size := 0\<rparr>\<rparr>) tr))"
proof
  obtain st c tr' where
    i: "init_context ext (Config b) gpu_device path
          (new_Context instance_name gpu_device (mbs (Config b)))
          (if gpu_device = NO_GPU_DEVICE then tr else tr @ [Ev_cudaGetDeviceProperties gpu_device])
        = (st, c, tr')"
    using prod_cases3 by blast
  have "max_batch_size_' c = mbs (Config b)"
    using init_context_frame [OF i] by (simp add: new_Context_def)
  then show "\<exists>c. contexts_' (fst (snd (CreateExecutionContext ext instance_name gpu_device paths b tr)))
               = contexts_' b @ [c]
             \<and> max_batch_size_' c =
                 (if sint (max_batch_size (Config b)) \<le> 0 then NO_BATCHING
                  else max_batch_size (Config b))"
    using assms i by (simp add: CreateExecutionContext_def mbs_def word_sle_eq)
next
  show "sint (max_batch_size (Config b)) \<le> 0 \<longrightarrow>
          fst (CreateExecutionContext ext instance_name gpu_device paths b tr)
          = fst (CreateExecutionContext ext instance_name gpu_device paths
                   (b\<lparr>Config := (Config b)\<lparr>max_batch_size := 0\<rparr>\<rparr>) tr)"
  proof
    assume neg: "sint (max_batch_size (Config b)) \<le> 0"
    have "b\<lparr>Config := (Config b)\<lparr>max_batch_size := max_batch_size (Config b)\<rparr>\<rparr> = b" by simp
    then show "fst (CreateExecutionContext ext instance_name gpu_device paths b tr)
          = fst (CreateExecutionContext ext instance_name gpu_device paths
                   (b\<lparr>Config := (Config b)\<lparr>max_batch_size := 0\<rparr>\<rparr>) tr)"
      using CreateExecutionContext_negative [OF neg, of ext instance_name gpu_device paths b tr]
      by simp
  qed
qed

text \<open>
  C10 at a configured maximum of -3 on a CPU instance.
\<close>

theorem C10_max_batch_size_of_context_witness:
  "choose_cc_model_filename stub (backend_x\<lparr>Config := model_x\<lparr>max_batch_size := - 3\<rparr>, contexts_' := []\<rparr>)
       NO_GPU_DEVICE = Inr ([], ''model.onnx'')
   \<and> sint (max_batch_size (model_x\<lparr>max_batch_size := - 3\<rparr>)) = - 3
   \<and> map max_batch_size_'
         (contexts_' (fst (snd (CreateExecutionContext stub ''m_0_cpu'' NO_GPU_DEVICE
                                  [''model.onnx'' \<mapsto> ''/models/m/1/model.onnx'']
                                  (backend_x\<lparr>Config := model_x\<lparr>max_batch_size := - 3\<rparr>,
                                             contexts_' := []\<rparr>) [])))) = [0]
   \<and> fst (CreateExecutionContext stub ''m_0_cpu'' NO_GPU_DEVICE
            [''model.onnx'' \<mapsto> ''/models/m/1/model.onnx'']
            (backend_x\<lparr>Config := model_x\<lparr>max_batch_size := - 3\<rparr>, contexts_' := []\<rparr>) [])
       = Success"
proof -
  let ?b = "backend_x\<lparr>Config := model_x\<lparr>max_batch_size := - 3\<rparr>, contexts_' := []\<rparr>"
  let ?paths = "[''model.onnx'' \<mapsto> ''/models/m/1/model.onnx'']"
  have ch: "choose_cc_model_filename stub ?b NO_GPU_DEVICE = Inr ([], ''model.onnx'')"
    by (simp add: choose_cc_model_filename_def backend_x_def model_x_def)
  have p: "?paths ''model.onnx'' = Some ''/models/m/1/model.onnx''" by simp
  have neg: "sint (max_batch_size (model_x\<lparr>max_batch_size := - 3\<rparr>)) = - 3" by simp
  have zero: "fst (CreateExecutionContext stub ''m_0_cpu'' NO_GPU_DEVICE ?paths
                     (?b\<lparr>Config := (Config ?b)\<lparr>max_batch_size := 0\<rparr>\<rparr>) []) = Success"
    by (simp add: CreateExecutionContext_def choose_cc_model_filename_def backend_x_def
        model_x_def init_context_def create_session_def validate_context_def ValidateInputs_def
        ValidateOutputs_def CheckAllowedModelInput_def CheckAllowedModelOutput_def
        create_allocator_info_def stub_def IsOk_def Success_def NO_GPU_DEVICE_def)
  from C10_max_batch_size_of_context
         [where ext = stub and b = ?b and gpu_device = NO_GPU_DEVICE and cc = "[]"
            and f = "''model.onnx''" and paths = ?paths and path = "''/models/m/1/model.onnx''"
            and instance_name = "''m_0_cpu''" and tr = "[]", OF ch p]
       neg zero
  show ?thesis
    using ch by (auto simp: NO_BATCHING_def)
qed

end
